theory Spec2Isabelle
  imports Main "HOL-Library.Word" "HOL-Library.Char_ord" "HOL-Library.List_Lexorder"
begin

section \<open>Severity levels\<close>

text \<open>
  \<^verbatim>\<open>zerolog.Level\<close> is Go's \<^verbatim>\<open>int8\<close>. The package compares levels with the signed
  \<^verbatim>\<open><=\<close> and \<^verbatim>\<open>>=\<close> of Go and with \<^verbatim>\<open>==\<close>; it does no arithmetic on them. A level is
  an 8-bit word read in two's complement.
\<close>

type_synonym Level = "8 word"

text \<open>
  Modelled from the spec: the constants of the logging engine (package zerolog, which is
  not part of this repository). The spec gives the order
  trace < debug < info < warn < error < fatal < panic and the two sentinels "no bound" and
  "disabled"; the numbers are the engine's.
\<close>

definition TraceLevel :: Level where "TraceLevel = - 1"
definition DebugLevel :: Level where "DebugLevel = 0"
definition InfoLevel :: Level where "InfoLevel = 1"
definition WarnLevel :: Level where "WarnLevel = 2"
definition ErrorLevel :: Level where "ErrorLevel = 3"
definition FatalLevel :: Level where "FatalLevel = 4"
definition PanicLevel :: Level where "PanicLevel = 5"
definition NoLevel :: Level where "NoLevel = 6"
definition Disabled :: Level where "Disabled = 7"

text \<open>Go's \<^verbatim>\<open>a <= b\<close> on \<^verbatim>\<open>int8\<close>.\<close>

definition level_le :: "Level \<Rightarrow> Level \<Rightarrow> bool" where
  "level_le a b = (sint a \<le> sint b)"

section \<open>Configuration structs\<close>

text \<open>
  \<^verbatim>\<open>WriterType\<close> and \<^verbatim>\<open>LogFormat\<close> are Go strings. The embedded structs
  \<^verbatim>\<open>SyslogConfig\<close> and \<^verbatim>\<open>FileConfig\<close> are kept as records of their own, held in a
  field of the descriptor. A \<^verbatim>\<open>*zerolog.Level\<close> is an optional level: \<open>None\<close> is nil.
\<close>

type_synonym WriterType = string
type_synonym LogFormat = string

definition WriterTypeStdout :: WriterType where "WriterTypeStdout = ''stdout''"
definition WriterTypeStderr :: WriterType where "WriterTypeStderr = ''stderr''"
definition WriterTypeFile :: WriterType where "WriterTypeFile = ''file''"
definition WriterTypeSyslog :: WriterType where "WriterTypeSyslog = ''syslog''"
definition WriterTypeSyslogCEE :: WriterType where "WriterTypeSyslogCEE = ''syslog-cee''"
definition WriterTypeJournald :: WriterType where "WriterTypeJournald = ''journald''"
definition WriterTypeJS :: WriterType where "WriterTypeJS = ''js''"

definition LogFormatJSON :: LogFormat where "LogFormatJSON = ''json''"
definition LogFormatPretty :: LogFormat where "LogFormatPretty = ''pretty''"
definition LogFormatPrettyColored :: LogFormat where "LogFormatPrettyColored = ''pretty-colored''"

record SyslogConfig =
  Network :: string
  Host :: string
  Flags :: int
  Tag :: string

record FileConfig =
  Filename :: string
  MaxSize :: int
  MaxAge :: int
  MaxBackups :: int
  LocalTime :: bool
  Compress :: bool

record WriterConfig =
  Type :: WriterType
  Format :: LogFormat
  MinLevel :: "Level option"
  MaxLevel :: "Level option"
  TimeFormat :: string
  Syslog :: SyslogConfig
  File :: FileConfig

section \<open>Writers\<close>

text \<open>
  The values that flow through \<^verbatim>\<open>io.Writer\<close> in this package. The two adapters of
  \<^verbatim>\<open>adapters.go\<close> and \<^verbatim>\<open>JSWriter\<close> are the package's own; the others are built by the
  package from its collaborators (lumberjack, zerolog, log/syslog, journald). \<open>External\<close> is
  any other writer: what the variables \<^verbatim>\<open>Stdout\<close> and \<^verbatim>\<open>Stderr\<close> hold and what a
  registered constructor returns; its flag says whether the value also has the method
  \<^verbatim>\<open>WriteLevel\<close>, which is all the package ever asks of it. \<open>NilWriter\<close> is the nil
  interface value and \<open>Discard\<close> is \<^verbatim>\<open>io.Discard\<close>.
\<close>

datatype writer =
    NilWriter
  | External string bool
  | Discard
  | LumberjackLogger FileConfig
  | SyslogLevelWriter SyslogConfig
  | SyslogCEEWriter SyslogConfig
  | JournalDWriter
  | JSWriter
  | ConsoleWriter writer bool string
  | MultiLevelWriter "writer list"
  | levelWriterAdapter writer
  | minMaxLevelWriter writer Level Level

text \<open>
  The type assertion \<^verbatim>\<open>writer.(zerolog.LevelWriter)\<close>: does the value have a
  \<^verbatim>\<open>WriteLevel\<close> method. For the package's own types this is read off the source; for the
  collaborators' it is read off the constructors' result types (\<^verbatim>\<open>SyslogLevelWriter\<close>,
  \<^verbatim>\<open>SyslogCEEWriter\<close> and \<^verbatim>\<open>MultiLevelWriter\<close> return a \<^verbatim>\<open>LevelWriter\<close>, the others a
  plain writer).
\<close>

fun is_LevelWriter :: "writer \<Rightarrow> bool" where
  "is_LevelWriter NilWriter = False"
| "is_LevelWriter (External name lw) = lw"
| "is_LevelWriter Discard = False"
| "is_LevelWriter (LumberjackLogger fc) = False"
| "is_LevelWriter (SyslogLevelWriter sc) = True"
| "is_LevelWriter (SyslogCEEWriter sc) = True"
| "is_LevelWriter JournalDWriter = False"
| "is_LevelWriter JSWriter = True"
| "is_LevelWriter (ConsoleWriter out noColor timeFormat) = False"
| "is_LevelWriter (MultiLevelWriter ws) = True"
| "is_LevelWriter (levelWriterAdapter w) = True"
| "is_LevelWriter (minMaxLevelWriter lw mn mx) = True"

text \<open>
  \<^verbatim>\<open>func MinMaxLevelWriter(writer io.Writer, minLevel, maxLevel zerolog.Level) zerolog.LevelWriter\<close>
\<close>

definition MinMaxLevelWriter :: "writer \<Rightarrow> Level \<Rightarrow> Level \<Rightarrow> writer" where
  "MinMaxLevelWriter writer minLevel maxLevel =
     (let lw = (if is_LevelWriter writer then writer else levelWriterAdapter writer)
      in minMaxLevelWriter lw minLevel maxLevel)"

subsection \<open>Writing\<close>

text \<open>
  A write returns Go's pair \<^verbatim>\<open>(n int, err error)\<close>; \<open>None\<close> is the nil error. What a
  write does to the world outside (a buffer, a file, a socket) is a state of any type
  \<open>'s\<close>, passed through. The writers that are not this package's code are run by the
  environment \<open>ext\<close>: it is given the writer, the level when the call is \<^verbatim>\<open>WriteLevel\<close>
  (\<open>None\<close> when it is \<^verbatim>\<open>Write\<close>), the payload and the state.
\<close>

datatype error =
    ErrUnknownWriterType WriterType
  | ErrNotSupported WriterType
  | ErrUnknownFormat LogFormat
  | ErrFailedToParse nat error
  | ErrExternal string

type_synonym result = "int \<times> error option"

type_synonym 's extern = "writer \<Rightarrow> Level option \<Rightarrow> char list \<Rightarrow> 's \<Rightarrow> result \<times> 's"

text \<open>
  The condition of \<^verbatim>\<open>minMaxLevelWriter.WriteLevel\<close>:
  \<^verbatim>\<open>(mlw.MinLevel == zerolog.NoLevel || l >= mlw.MinLevel) &&
    (mlw.MaxLevel == zerolog.NoLevel || l <= mlw.MaxLevel)\<close>
\<close>

definition in_window :: "Level \<Rightarrow> Level \<Rightarrow> Level \<Rightarrow> bool" where
  "in_window mn mx l =
     ((mn = NoLevel \<or> level_le mn l) \<and> (mx = NoLevel \<or> level_le l mx))"

text \<open>
  \<^verbatim>\<open>func (jw *JSWriter) WriteLevel(level zerolog.Level, p []byte) (n int, err error)\<close>:
  at the level \<^verbatim>\<open>Disabled\<close> it returns at once; at any other level it parses the payload
  and calls a method of the JavaScript console, which is the environment's part.
\<close>

definition JSWriter_WriteLevel :: "'s extern \<Rightarrow> Level \<Rightarrow> char list \<Rightarrow> 's \<Rightarrow> result \<times> 's" where
  "JSWriter_WriteLevel ext l p s =
     (if l = Disabled then ((int (length p), None), s) else ext JSWriter (Some l) p s)"

text \<open>
  \<^verbatim>\<open>Write\<close> and \<^verbatim>\<open>WriteLevel\<close> by dynamic dispatch. \<^verbatim>\<open>JSWriter.Write\<close> is
  \<^verbatim>\<open>WriteLevel\<close> at the debug level. \<^verbatim>\<open>levelWriterAdapter\<close> embeds an
  \<^verbatim>\<open>io.Writer\<close> and \<^verbatim>\<open>minMaxLevelWriter\<close> embeds a \<^verbatim>\<open>zerolog.LevelWriter\<close>, so the
  \<^verbatim>\<open>Write\<close> of both is the embedded value's, promoted. \<^verbatim>\<open>io.Discard\<close> accepts every
  payload and does nothing. Every other call leaves the package and is the environment's.
  Go calls \<^verbatim>\<open>WriteLevel\<close> only on a value that has the method (\<open>is_LevelWriter\<close>); the
  package wraps every other writer in \<^verbatim>\<open>levelWriterAdapter\<close> first.
\<close>

fun Write :: "'s extern \<Rightarrow> writer \<Rightarrow> char list \<Rightarrow> 's \<Rightarrow> result \<times> 's" where
  "Write ext (levelWriterAdapter w) p s = Write ext w p s"
| "Write ext (minMaxLevelWriter lw mn mx) p s = Write ext lw p s"
| "Write ext JSWriter p s = JSWriter_WriteLevel ext DebugLevel p s"
| "Write ext Discard p s = ((int (length p), None), s)"
| "Write ext w p s = ext w None p s"

fun WriteLevel :: "'s extern \<Rightarrow> writer \<Rightarrow> Level \<Rightarrow> char list \<Rightarrow> 's \<Rightarrow> result \<times> 's" where
  "WriteLevel ext (levelWriterAdapter w) l p s = Write ext w p s"
| "WriteLevel ext (minMaxLevelWriter lw mn mx) l p s =
     (if in_window mn mx l then WriteLevel ext lw l p s
      else ((int (length p), None), s))"
| "WriteLevel ext JSWriter l p s = JSWriter_WriteLevel ext l p s"
| "WriteLevel ext w l p s = ext w (Some l) p s"

text \<open>
  An environment that records every call that reaches an external writer and answers it
  with \<open>r\<close>. With it, "the payload was forwarded" is a fact about the state.
\<close>

definition recorder ::
  "(writer \<Rightarrow> Level option \<Rightarrow> char list \<Rightarrow> result) \<Rightarrow> (writer \<times> Level option \<times> char list) list extern"
where
  "recorder r w l p tr = (r w l p, tr @ [(w, l, p)])"

section \<open>Errors as text\<close>

text \<open>
  The \<^verbatim>\<open>%d\<close> of \<^verbatim>\<open>fmt.Errorf\<close> on a natural number: its decimal digits.
\<close>

definition digit_char :: "nat \<Rightarrow> char" where
  "digit_char d = char_of (48 + d)"

function show_nat :: "nat \<Rightarrow> string" where
  "show_nat n = (if n < 10 then [digit_char n] else show_nat (n div 10) @ [digit_char (n mod 10)])"
  by pat_completeness auto
termination
  by (relation "measure id") auto

declare show_nat.simps [simp del]

text \<open>
  \<^verbatim>\<open>err.Error()\<close> for the errors this package builds with \<^verbatim>\<open>fmt.Errorf\<close>. The verb
  \<^verbatim>\<open>%q\<close> (Go's \<^verbatim>\<open>strconv.Quote\<close>) is the parameter \<open>q\<close>; \<^verbatim>\<open>%w\<close> prints the
  wrapped error's text. \<open>ErrExternal\<close> is an error a collaborator or a registered
  constructor returned, with its text.
\<close>

fun Error_text :: "(string \<Rightarrow> string) \<Rightarrow> error \<Rightarrow> string" where
  "Error_text q (ErrUnknownWriterType t) = ''unknown writer type '' @ q t"
| "Error_text q (ErrNotSupported t) = ''writer type '' @ q t @ '' not supported on this OS''"
| "Error_text q (ErrUnknownFormat f) = ''unknown format '' @ q f"
| "Error_text q (ErrFailedToParse n err) =
     ''failed to parse config for writer #'' @ show_nat n @ '': '' @ Error_text q err"
| "Error_text q (ErrExternal msg) = msg"

section \<open>The writer compilers\<close>

text \<open>
  \<^verbatim>\<open>type WriterCompiler = func(*WriterConfig) (io.Writer, error)\<close>. A compiler is handed
  a pointer to the descriptor and may assign to its fields (\<^verbatim>\<open>compileJS\<close> does), so in
  the model it returns Go's pair together with the descriptor as it leaves it.

  What the package reads from outside while compiling is the record \<open>environ\<close>: the
  package variables \<^verbatim>\<open>Stdout\<close> and \<^verbatim>\<open>Stderr\<close>, whether \<^verbatim>\<open>Rotate\<close> of a lumberjack
  logger with the given fields fails, and whether \<^verbatim>\<open>syslog.Dial\<close> fails.
\<close>

type_synonym WriterCompiler = "WriterConfig \<Rightarrow> (writer \<times> error option) \<times> WriterConfig"

type_synonym registry = "WriterType \<rightharpoonup> WriterCompiler"

record environ =
  Stdout :: writer
  Stderr :: writer
  Rotate :: "FileConfig \<Rightarrow> error option"
  Dial :: "SyslogConfig \<Rightarrow> error option"

definition compileUnsupported :: WriterCompiler where
  "compileUnsupported wc = ((NilWriter, Some (ErrNotSupported (Type wc))), wc)"

definition compileStdout :: "environ \<Rightarrow> WriterCompiler" where
  "compileStdout env wc = ((Stdout env, None), wc)"

definition compileStderr :: "environ \<Rightarrow> WriterCompiler" where
  "compileStderr env wc = ((Stderr env, None), wc)"

definition compileFile :: "environ \<Rightarrow> WriterCompiler" where
  "compileFile env wc =
     (let fc = \<lparr>Filename = Filename (File wc), MaxSize = MaxSize (File wc),
                MaxAge = MaxAge (File wc), MaxBackups = MaxBackups (File wc),
                LocalTime = LocalTime (File wc), Compress = Compress (File wc)\<rparr>
      in case Rotate env fc of
           Some err \<Rightarrow> ((NilWriter, Some err), wc)
         | None \<Rightarrow> ((LumberjackLogger fc, None), wc))"

definition compileSyslog :: "environ \<Rightarrow> WriterCompiler" where
  "compileSyslog env wc =
     (let sc = \<lparr>Network = Network (Syslog wc), Host = Host (Syslog wc),
                Flags = Flags (Syslog wc), Tag = Tag (Syslog wc)\<rparr>
      in case Dial env sc of
           Some err \<Rightarrow> ((NilWriter, Some err), wc)
         | None \<Rightarrow>
             (if Type wc = WriterTypeSyslogCEE then ((SyslogCEEWriter sc, None), wc)
              else ((SyslogLevelWriter sc, None), wc)))"

definition compileJournald :: WriterCompiler where
  "compileJournald wc = ((JournalDWriter, None), wc)"

definition compileJS :: WriterCompiler where
  "compileJS wc = ((JSWriter, None), wc\<lparr>Format := LogFormatJSON\<rparr>)"

text \<open>
  The package variable \<^verbatim>\<open>writerCompilers\<close> as \<^verbatim>\<open>config.go\<close> initialises it, and as it
  is after the \<^verbatim>\<open>init\<close> of the unix build and of the js build.
\<close>

definition writerCompilers :: "environ \<Rightarrow> registry" where
  "writerCompilers env =
     [WriterTypeStdout \<mapsto> compileStdout env,
      WriterTypeStderr \<mapsto> compileStderr env,
      WriterTypeFile \<mapsto> compileFile env,
      WriterTypeJournald \<mapsto> compileUnsupported,
      WriterTypeSyslog \<mapsto> compileUnsupported,
      WriterTypeSyslogCEE \<mapsto> compileUnsupported]"

definition writerCompilers_unix :: "environ \<Rightarrow> registry" where
  "writerCompilers_unix env =
     (writerCompilers env)
       (WriterTypeSyslog \<mapsto> compileSyslog env,
        WriterTypeSyslogCEE \<mapsto> compileSyslog env,
        WriterTypeJournald \<mapsto> compileJournald)"

definition writerCompilers_js :: "environ \<Rightarrow> registry" where
  "writerCompilers_js env = (writerCompilers env)(WriterTypeJS \<mapsto> compileJS)"

text \<open>\<^verbatim>\<open>func RegisterWriter(wt WriterType, compiler WriterCompiler)\<close>, on the registry passed in.\<close>

definition RegisterWriter :: "WriterType \<Rightarrow> WriterCompiler \<Rightarrow> registry \<Rightarrow> registry" where
  "RegisterWriter wt compiler reg = reg(wt \<mapsto> compiler)"

definition compileMain :: "registry \<Rightarrow> WriterCompiler" where
  "compileMain reg wc =
     (case reg (Type wc) of
        None \<Rightarrow> ((NilWriter, Some (ErrUnknownWriterType (Type wc))), wc)
      | Some compiler \<Rightarrow> compiler wc)"

definition levelPtr :: "Level option \<Rightarrow> Level" where
  "levelPtr ptr = (case ptr of None \<Rightarrow> NoLevel | Some l \<Rightarrow> l)"

text \<open>
  The \<^verbatim>\<open>switch wc.Format\<close> of \<^verbatim>\<open>WriterConfig.Compile\<close>: the new \<^verbatim>\<open>output\<close>, or the
  error of the \<^verbatim>\<open>default\<close> case.
\<close>

definition defaultTimeFormat :: string where
  "defaultTimeFormat = ''2006-01-02T15:04:05.999Z07:00''"

definition formatOutput :: "WriterConfig \<Rightarrow> writer \<Rightarrow> writer \<times> error option" where
  "formatOutput wc output =
     (if Format wc = [] \<or> Format wc = LogFormatJSON then (output, None)
      else if Format wc = LogFormatPretty \<or> Format wc = LogFormatPrettyColored then
        (ConsoleWriter output (Format wc = LogFormatPretty)
           (if TimeFormat wc \<noteq> [] then TimeFormat wc else defaultTimeFormat), None)
      else (NilWriter, Some (ErrUnknownFormat (Format wc))))"

text \<open>
  \<^verbatim>\<open>func (wc *WriterConfig) Compile() (io.Writer, error)\<close>. The receiver is a pointer: the
  format and the bounds are read after the compiler has run, from the descriptor as the
  compiler left it, which is returned as well.
\<close>

definition WriterConfig_Compile :: "registry \<Rightarrow> WriterCompiler" where
  "WriterConfig_Compile reg wc =
     (case compileMain reg wc of
        ((output, Some err), wc1) \<Rightarrow> ((NilWriter, Some err), wc1)
      | ((output, None), wc1) \<Rightarrow>
          (case formatOutput wc1 output of
             (output2, Some err) \<Rightarrow> ((NilWriter, Some err), wc1)
           | (output2, None) \<Rightarrow>
               (if MinLevel wc1 \<noteq> None \<or> MaxLevel wc1 \<noteq> None then
                  ((MinMaxLevelWriter output2 (levelPtr (MinLevel wc1)) (levelPtr (MaxLevel wc1)),
                    None), wc1)
                else ((output2, None), wc1))))"

section \<open>The logger\<close>

text \<open>
  A value of Go's \<^verbatim>\<open>any\<close>, as a configuration document can hold it; \<open>AnyNil\<close> is what
  indexing a map with a key it does not hold gives.
\<close>

datatype any =
    AnyNil
  | AnyBool bool
  | AnyNumber int
  | AnyString string
  | AnyList "any list"
  | AnyMap "(string \<times> any) list"

record Config =
  Writers :: "WriterConfig list"
  GlobalMinLevel :: "Level option"
  Timestamp :: "bool option"
  Caller :: bool
  Metadata :: "string \<rightharpoonup> any"

text \<open>
  Modelled from the spec: the logger of the logging engine (package zerolog, an external
  collaborator that is not part of this repository). The spec's words: the engine exposes a "write a
  record tagged with a severity level" capability; logger assembly will "attach timestamp
  field unless explicitly disabled; attach caller-location field if enabled; attach each
  metadata key"; "if a global minimum severity is set, the resulting logger discards records
  below it before they ever reach the fan-out sink"; zero writers give an "inert sink that
  discards every record and never fails". A logger is its sink, its minimum level and what
  was attached to it, in the order of attachment. A new logger lets every level through;
  a writer without \<^verbatim>\<open>WriteLevel\<close> is used through an adapter that drops the level, as in
  \<^verbatim>\<open>MinMaxLevelWriter\<close>.
\<close>

datatype attachment =
    TimestampField
  | CallerField
  | InterfaceField string any

record Logger =
  Logger_w :: writer
  Logger_level :: Level
  Logger_context :: "attachment list"

text \<open>
  Modelled from the spec: the engine's constructor of a logger over a sink
  (\<^verbatim>\<open>zerolog.New\<close>). No sink means the inert sink.
\<close>

definition New :: "writer \<Rightarrow> Logger" where
  "New wr =
     (let wr1 = (if wr = NilWriter then Discard else wr)
      in \<lparr>Logger_w = (if is_LevelWriter wr1 then wr1 else levelWriterAdapter wr1),
          Logger_level = TraceLevel, Logger_context = []\<rparr>)"

text \<open>
  Modelled from the spec: setting the logger's minimum level (the method \<^verbatim>\<open>Level\<close> of
  the engine's logger).
\<close>

definition Level_of :: "Logger \<Rightarrow> Level \<Rightarrow> Logger" where
  "Level_of lg lvl = lg\<lparr>Logger_level := lvl\<rparr>"

text \<open>
  Modelled from the spec: the engine's no-op logger (\<^verbatim>\<open>zerolog.Nop\<close>), the "inert sink
  that discards every record and never fails", with every level disabled.
\<close>

definition Nop :: Logger where
  "Nop = Level_of (New NilWriter) Disabled"

text \<open>
  Modelled from the spec: attaching one field to the logger's context (\<^verbatim>\<open>Timestamp\<close>,
  \<^verbatim>\<open>Caller\<close> and \<^verbatim>\<open>Interface\<close> of the engine's context builder).
\<close>

definition attach :: "attachment \<Rightarrow> Logger \<Rightarrow> Logger" where
  "attach a lg = lg\<lparr>Logger_context := Logger_context lg @ [a]\<rparr>"

text \<open>
  Modelled from the spec: one log call at level \<open>lvl\<close>. The record is discarded when its
  level is below the logger's; otherwise its encoding (\<open>enc\<close>, the engine's business) is
  written to the sink, tagged with the level. The state is the world outside, as for
  \<open>WriteLevel\<close>. \<open>log_calls\<close> is a sequence of calls.
\<close>

definition log_call ::
  "'s extern \<Rightarrow> (Logger \<Rightarrow> Level \<Rightarrow> string \<Rightarrow> char list) \<Rightarrow> Logger \<Rightarrow> Level \<times> string \<Rightarrow> 's \<Rightarrow> 's"
where
  "log_call ext enc lg call s =
     (if level_le (Logger_level lg) (fst call)
      then snd (WriteLevel ext (Logger_w lg) (fst call) (enc lg (fst call) (snd call)) s)
      else s)"

definition log_calls ::
  "'s extern \<Rightarrow> (Logger \<Rightarrow> Level \<Rightarrow> string \<Rightarrow> char list) \<Rightarrow> Logger \<Rightarrow> (Level \<times> string) list \<Rightarrow> 's \<Rightarrow> 's"
where
  "log_calls ext enc lg calls s = fold (log_call ext enc lg) calls s"

section \<open>Compiling a configuration\<close>

text \<open>
  The loop \<^verbatim>\<open>for i, wc := range c.Writers\<close> of \<^verbatim>\<open>Config.Compile\<close>, from index \<open>i\<close> on.
  \<open>wc\<close> is a copy of the element; \<^verbatim>\<open>wc.Compile()\<close> works on the copy, and what it leaves
  in it is dropped at the next iteration. The first error ends the loop.
\<close>

fun compile_writers :: "registry \<Rightarrow> nat \<Rightarrow> WriterConfig list \<Rightarrow> error + writer list" where
  "compile_writers reg i [] = Inr []"
| "compile_writers reg i (wc # rest) =
     (case fst (WriterConfig_Compile reg wc) of
        (wr, Some err) \<Rightarrow> Inl (ErrFailedToParse (i + 1) err)
      | (wr, None) \<Rightarrow>
          (case compile_writers reg (i + 1) rest of
             Inl e \<Rightarrow> Inl e
           | Inr writers \<Rightarrow> Inr (wr # writers)))"

text \<open>
  The metadata loop: \<^verbatim>\<open>with = with.Interface(key, c.Metadata[key])\<close> for each key of the
  sorted slice.
\<close>

definition metadata_value :: "(string \<rightharpoonup> any) \<Rightarrow> string \<Rightarrow> any" where
  "metadata_value m key = (case m key of None \<Rightarrow> AnyNil | Some v \<Rightarrow> v)"

fun attach_metadata :: "(string \<rightharpoonup> any) \<Rightarrow> string list \<Rightarrow> Logger \<Rightarrow> Logger" where
  "attach_metadata m [] with = with"
| "attach_metadata m (key # keys) with =
     attach_metadata m keys (attach (InterfaceField key (metadata_value m key)) with)"

text \<open>
  \<^verbatim>\<open>func (c *Config) Compile() (*zerolog.Logger, error)\<close>. Go does not fix the order in
  which \<^verbatim>\<open>for key := range c.Metadata\<close> yields the keys: the order of one run is the
  argument \<open>ks\<close>, a list of the keys of the map, each once (\<open>key_order\<close>). So
  \<^verbatim>\<open>len(c.Metadata)\<close> is the length of \<open>ks\<close> and the slice \<^verbatim>\<open>keys\<close> is \<open>ks\<close> before
  \<^verbatim>\<open>sort.Strings\<close>, which orders Go strings byte by byte, as \<open>sort\<close> does here.
\<close>

definition key_order :: "(string \<rightharpoonup> any) \<Rightarrow> string list \<Rightarrow> bool" where
  "key_order m ks = (distinct ks \<and> set ks = dom m)"

text \<open>
  Lines 211 to 240 of \<^verbatim>\<open>Config.Compile\<close>: the logger over the compiled writers.
\<close>

definition assemble :: "string list \<Rightarrow> Config \<Rightarrow> writer list \<Rightarrow> Logger" where
  "assemble ks c writers =
     (let realWriter =
            (if length writers = 1 then writers ! 0
             else if length writers > 1 then MultiLevelWriter writers
             else NilWriter);
          with0 = New realWriter;
          with1 = (if Timestamp c = None \<or> Timestamp c = Some True
                   then attach TimestampField with0 else with0);
          with2 = (if Caller c then attach CallerField with1 else with1);
          with3 = (if length ks > 0 then attach_metadata (Metadata c) (sort ks) with2
                   else with2)
      in (case GlobalMinLevel c of
            None \<Rightarrow> with3
          | Some lvl \<Rightarrow> Level_of with3 lvl))"

definition Config_Compile :: "registry \<Rightarrow> string list \<Rightarrow> Config \<Rightarrow> Logger option \<times> error option" where
  "Config_Compile reg ks c =
     (if length (Writers c) = 0 \<or> GlobalMinLevel c = Some Disabled then (Some Nop, None)
      else
        (case compile_writers reg 0 (Writers c) of
           Inl err \<Rightarrow> (None, Some err)
         | Inr writers \<Rightarrow> (Some (assemble ks c writers), None)))"

text \<open>The zero value of \<^verbatim>\<open>WriterConfig\<close>.\<close>

definition WriterConfig_zero :: WriterConfig where
  "WriterConfig_zero =
     \<lparr>Type = [], Format = [], MinLevel = None, MaxLevel = None, TimeFormat = [],
      Syslog = \<lparr>Network = [], Host = [], Flags = 0, Tag = []\<rparr>,
      File = \<lparr>Filename = [], MaxSize = 0, MaxAge = 0, MaxBackups = 0,
              LocalTime = False, Compress = False\<rparr>\<rparr>"

section \<open>Compiling in memory\<close>

text \<open>
  Whether \<^verbatim>\<open>Config.Compile\<close> changes the configuration is a question of pointers. In
  Go the fields \<^verbatim>\<open>MinLevel\<close> and \<^verbatim>\<open>MaxLevel\<close> of a descriptor and \<^verbatim>\<open>MinLevel\<close> of the
  configuration are \<^verbatim>\<open>*zerolog.Level\<close>, \<^verbatim>\<open>Timestamp\<close> is \<^verbatim>\<open>*bool\<close>, \<^verbatim>\<open>Writers\<close> is a
  slice and \<^verbatim>\<open>Metadata\<close> a map. Here these are addresses: a memory holds the
  configuration struct, the \<^verbatim>\<open>WriterConfig\<close> variables, the \<^verbatim>\<open>Level\<close> variables, the
  \<^verbatim>\<open>bool\<close> variables and the map objects, each kind in a list addressed by position;
  \<open>None\<close> is the nil pointer (the nil map). The slice is the list of the addresses of its
  elements.
\<close>

record WriterConfig_mem =
  m_Type :: WriterType
  m_Format :: LogFormat
  m_MinLevel :: "nat option"
  m_MaxLevel :: "nat option"
  m_TimeFormat :: string
  m_Syslog :: SyslogConfig
  m_File :: FileConfig

record Config_mem =
  m_Writers :: "nat list"
  m_GlobalMinLevel :: "nat option"
  m_Timestamp :: "nat option"
  m_Caller :: bool
  m_Metadata :: "nat option"

record memory =
  config :: Config_mem
  descriptors :: "WriterConfig_mem list"
  levels :: "Level list"
  bools :: "bool list"
  maps :: "(string \<rightharpoonup> any) list"

text \<open>
  Reading through a pointer, and the value of a descriptor and of the configuration in a
  memory: every pointer replaced by what it points to.
\<close>

definition deref :: "'a list \<Rightarrow> nat option \<Rightarrow> 'a option" where
  "deref cells ptr = (case ptr of None \<Rightarrow> None | Some a \<Rightarrow> Some (cells ! a))"

definition load :: "Level list \<Rightarrow> WriterConfig_mem \<Rightarrow> WriterConfig" where
  "load lv d =
     \<lparr>Type = m_Type d, Format = m_Format d,
      MinLevel = deref lv (m_MinLevel d), MaxLevel = deref lv (m_MaxLevel d),
      TimeFormat = m_TimeFormat d, Syslog = m_Syslog d, File = m_File d\<rparr>"

definition load_Config :: "memory \<Rightarrow> Config" where
  "load_Config m =
     \<lparr>Writers = map (\<lambda>a. load (levels m) (descriptors m ! a)) (m_Writers (config m)),
      GlobalMinLevel = deref (levels m) (m_GlobalMinLevel (config m)),
      Timestamp = deref (bools m) (m_Timestamp (config m)),
      Caller = m_Caller (config m),
      Metadata = (case m_Metadata (config m) of None \<Rightarrow> Map.empty | Some a \<Rightarrow> maps m ! a)\<rparr>"

text \<open>
  A compiler in memory is handed the descriptor its pointer argument refers to and the
  \<^verbatim>\<open>Level\<close> variables, which it reaches through the descriptor's level pointers; it
  returns Go's pair, the descriptor as it leaves it, and the \<^verbatim>\<open>Level\<close> variables as it
  leaves them.
\<close>

type_synonym MemCompiler =
  "WriterConfig_mem \<Rightarrow> Level list \<Rightarrow> (writer \<times> error option) \<times> WriterConfig_mem \<times> Level list"

type_synonym mem_registry = "WriterType \<rightharpoonup> MemCompiler"

text \<open>
  The package's own compilers in memory. They read fields of the descriptor, assign to none
  of its level pointers and write through none (only \<^verbatim>\<open>compileJS\<close> assigns at all, to
  \<^verbatim>\<open>wc.Format\<close>): \<open>own_compiler f\<close> runs \<open>f\<close> on the value of the descriptor, stores
  the other fields back and leaves the pointers and the \<^verbatim>\<open>Level\<close> variables alone.
\<close>

definition own_compiler :: "WriterCompiler \<Rightarrow> MemCompiler" where
  "own_compiler f d lv =
     (case f (load lv d) of
        (r, wc1) \<Rightarrow>
          (r, d\<lparr>m_Type := Type wc1, m_Format := Format wc1, m_TimeFormat := TimeFormat wc1,
                m_Syslog := Syslog wc1, m_File := File wc1\<rparr>, lv))"

definition own_registry :: "registry \<Rightarrow> mem_registry" where
  "own_registry reg t = (case reg t of None \<Rightarrow> None | Some f \<Rightarrow> Some (own_compiler f))"

text \<open>
  A compiler an application could register:
  \<^verbatim>\<open>func(wc *WriterConfig) (io.Writer, error) {
      if wc.MinLevel != nil { *wc.MinLevel = zerolog.Disabled }
      return io.Discard, nil }\<close>
\<close>

definition compilePoke :: MemCompiler where
  "compilePoke d lv =
     (case m_MinLevel d of
        None \<Rightarrow> ((Discard, None), d, lv)
      | Some a \<Rightarrow> ((Discard, None), d, lv[a := Disabled]))"

text \<open>\<^verbatim>\<open>compileMain\<close> and \<^verbatim>\<open>WriterConfig.Compile\<close> on the descriptor at address \<open>a\<close>.\<close>

definition compileMain_mem :: "mem_registry \<Rightarrow> MemCompiler" where
  "compileMain_mem reg d lv =
     (case reg (m_Type d) of
        None \<Rightarrow> ((NilWriter, Some (ErrUnknownWriterType (m_Type d))), d, lv)
      | Some compiler \<Rightarrow> compiler d lv)"

definition WriterConfig_Compile_mem ::
  "mem_registry \<Rightarrow> nat \<Rightarrow> memory \<Rightarrow> (writer \<times> error option) \<times> memory" where
  "WriterConfig_Compile_mem reg a m =
     (case compileMain_mem reg (descriptors m ! a) (levels m) of
        ((output, e), d1, lv1) \<Rightarrow>
          (let m1 = m\<lparr>descriptors := (descriptors m)[a := d1], levels := lv1\<rparr>
           in case e of
                Some err \<Rightarrow> ((NilWriter, Some err), m1)
              | None \<Rightarrow>
                  (case formatOutput (load lv1 d1) output of
                     (output2, Some err) \<Rightarrow> ((NilWriter, Some err), m1)
                   | (output2, None) \<Rightarrow>
                       (if m_MinLevel d1 \<noteq> None \<or> m_MaxLevel d1 \<noteq> None then
                          ((MinMaxLevelWriter output2
                              (levelPtr (deref lv1 (m_MinLevel d1)))
                              (levelPtr (deref lv1 (m_MaxLevel d1))), None), m1)
                        else ((output2, None), m1)))))"

text \<open>
  \<^verbatim>\<open>for i, wc := range c.Writers\<close> declares one variable \<^verbatim>\<open>wc\<close> (the module is at
  go 1.19), at the address \<open>v\<close>. Every iteration assigns the element to it, which copies
  the fields and so the level pointers but not the levels they point to, and calls
  \<^verbatim>\<open>wc.Compile()\<close>, that is \<^verbatim>\<open>(&wc).Compile()\<close>.
\<close>

fun compile_writers_mem ::
  "mem_registry \<Rightarrow> nat \<Rightarrow> nat \<Rightarrow> nat list \<Rightarrow> memory \<Rightarrow> (error + writer list) \<times> memory" where
  "compile_writers_mem reg v i [] m = (Inr [], m)"
| "compile_writers_mem reg v i (a # elems) m =
     (case WriterConfig_Compile_mem reg v
             (m\<lparr>descriptors := (descriptors m)[v := descriptors m ! a]\<rparr>) of
        ((wr, Some err), m2) \<Rightarrow> (Inl (ErrFailedToParse (i + 1) err), m2)
      | ((wr, None), m2) \<Rightarrow>
          (case compile_writers_mem reg v (i + 1) elems m2 of
             (Inl e, m3) \<Rightarrow> (Inl e, m3)
           | (Inr writers, m3) \<Rightarrow> (Inr (wr # writers), m3)))"

definition WriterConfig_mem_zero :: WriterConfig_mem where
  "WriterConfig_mem_zero =
     \<lparr>m_Type = [], m_Format = [], m_MinLevel = None, m_MaxLevel = None, m_TimeFormat = [],
      m_Syslog = \<lparr>Network = [], Host = [], Flags = 0, Tag = []\<rparr>,
      m_File = \<lparr>Filename = [], MaxSize = 0, MaxAge = 0, MaxBackups = 0,
                LocalTime = False, Compress = False\<rparr>\<rparr>"

text \<open>
  \<^verbatim>\<open>Config.Compile\<close> on the configuration of the memory. The guard of line 199 reads
  \<^verbatim>\<open>*c.MinLevel\<close> before the loop; the loop variable is a new cell with the zero value;
  the timestamp flag, the caller flag, the metadata and \<^verbatim>\<open>*c.MinLevel\<close> again (line 237)
  are read after the loop, from the memory as the compilers left it.
\<close>

definition Config_Compile_mem ::
  "mem_registry \<Rightarrow> string list \<Rightarrow> memory \<Rightarrow> (Logger option \<times> error option) \<times> memory" where
  "Config_Compile_mem reg ks m =
     (if length (m_Writers (config m)) = 0 \<or>
         deref (levels m) (m_GlobalMinLevel (config m)) = Some Disabled
      then ((Some Nop, None), m)
      else
        (case compile_writers_mem reg (length (descriptors m)) 0 (m_Writers (config m))
                (m\<lparr>descriptors := descriptors m @ [WriterConfig_mem_zero]\<rparr>) of
           (Inl err, m1) \<Rightarrow> ((None, Some err), m1)
         | (Inr writers, m1) \<Rightarrow> ((Some (assemble ks (load_Config m1) writers), None), m1)))"

text \<open>
  A compiler that writes through no level pointer, a registry of such compilers, a registry
  over values whose compilers leave the bounds of the descriptor as they are, and two
  memories that differ at most in the \<^verbatim>\<open>Level\<close> variables and in the descriptor at
  address \<open>v\<close>.
\<close>

definition keeps_levels :: "MemCompiler \<Rightarrow> bool" where
  "keeps_levels f = (\<forall>d lv. snd (snd (f d lv)) = lv)"

definition registry_keeps_levels :: "mem_registry \<Rightarrow> bool" where
  "registry_keeps_levels reg = (\<forall>t f. reg t = Some f \<longrightarrow> keeps_levels f)"

definition registry_keeps_bounds :: "registry \<Rightarrow> bool" where
  "registry_keeps_bounds reg =
     (\<forall>t f wc. reg t = Some f \<longrightarrow>
        MinLevel (snd (f wc)) = MinLevel wc \<and> MaxLevel (snd (f wc)) = MaxLevel wc)"

definition same_but :: "nat \<Rightarrow> memory \<Rightarrow> memory \<Rightarrow> bool" where
  "same_but v m m' =
     (config m' = config m \<and> bools m' = bools m \<and> maps m' = maps m \<and>
      length (descriptors m') = length (descriptors m) \<and>
      (\<forall>a. a \<noteq> v \<longrightarrow> descriptors m' ! a = descriptors m ! a))"

section \<open>Concrete inputs\<close>

text \<open>
  The registries the package itself builds, for one environment.
\<close>

definition builtin_registry :: "environ \<Rightarrow> registry \<Rightarrow> bool" where
  "builtin_registry env reg =
     (reg = writerCompilers env \<or> reg = writerCompilers_unix env \<or> reg = writerCompilers_js env)"

text \<open>
  An environment in which the standard streams are plain writers and nothing fails; a sink
  that fails every write and one that accepts every write; an encoder that writes the
  message alone; and a quoting that only adds the quotation marks (what Go's \<^verbatim>\<open>%q\<close>
  does to a string of printable ASCII with no quotation mark and no backslash).
\<close>

definition example_env :: environ where
  "example_env =
     \<lparr>Stdout = External ''stdout'' False, Stderr = External ''stderr'' False,
      Rotate = (\<lambda>fc. None), Dial = (\<lambda>sc. None)\<rparr>"

definition failing_sink :: "unit extern" where
  "failing_sink wr l p s = ((0, Some (ErrExternal ''write failed'')), s)"

definition accepting :: "writer \<Rightarrow> Level option \<Rightarrow> char list \<Rightarrow> result" where
  "accepting wr l p = (int (length p), None)"

definition plain_enc :: "Logger \<Rightarrow> Level \<Rightarrow> string \<Rightarrow> char list" where
  "plain_enc lg l msg = msg"

definition plain_quote :: "string \<Rightarrow> string" where
  "plain_quote t = CHR 0x22 # t @ [CHR 0x22]"

definition stdout_descriptor :: WriterConfig where
  "stdout_descriptor = WriterConfig_zero\<lparr>Type := WriterTypeStdout\<rparr>"

definition pretty_descriptor :: WriterConfig where
  "pretty_descriptor =
     WriterConfig_zero\<lparr>Type := WriterTypeStdout, Format := LogFormatPretty, TimeFormat := ''2006''\<rparr>"

definition js_descriptor :: WriterConfig where
  "js_descriptor = WriterConfig_zero\<lparr>Type := WriterTypeJS, Format := ''bogus''\<rparr>"

definition reversed_descriptor :: WriterConfig where
  "reversed_descriptor =
     WriterConfig_zero\<lparr>Type := WriterTypeStdout, MinLevel := Some ErrorLevel,
                        MaxLevel := Some InfoLevel\<rparr>"

definition disabled_config :: Config where
  "disabled_config =
     \<lparr>Writers = [WriterConfig_zero\<lparr>Type := WriterTypeFile, Format := ''xml''\<rparr>],
      GlobalMinLevel = Some Disabled, Timestamp = None, Caller = True, Metadata = Map.empty\<rparr>"

definition bad_kind_config :: Config where
  "bad_kind_config =
     \<lparr>Writers = [WriterConfig_zero\<lparr>Type := WriterTypeStdout\<rparr>, WriterConfig_zero\<lparr>Type := ''nope''\<rparr>],
      GlobalMinLevel = None, Timestamp = None, Caller = False, Metadata = Map.empty\<rparr>"

definition bad_format_config :: Config where
  "bad_format_config =
     \<lparr>Writers = [WriterConfig_zero\<lparr>Type := WriterTypeStdout\<rparr>,
                 WriterConfig_zero\<lparr>Type := WriterTypeStderr, Format := ''xml''\<rparr>],
      GlobalMinLevel = None, Timestamp = None, Caller = False, Metadata = Map.empty\<rparr>"

definition disabled_bad_config :: Config where
  "disabled_bad_config = bad_kind_config\<lparr>GlobalMinLevel := Some Disabled\<rparr>"

definition unsupported_first_config :: Config where
  "unsupported_first_config =
     bad_kind_config\<lparr>Writers := [WriterConfig_zero\<lparr>Type := WriterTypeSyslog\<rparr>,
                                   WriterConfig_zero\<lparr>Type := ''nope''\<rparr>]\<rparr>"

text \<open>
  What was attached to a logger with \<^verbatim>\<open>Interface\<close>, in the order of attachment: the
  metadata fields of its context.
\<close>

fun metadata_fields :: "attachment list \<Rightarrow> (string \<times> any) list" where
  "metadata_fields [] = []"
| "metadata_fields (InterfaceField key v # rest) = (key, v) # metadata_fields rest"
| "metadata_fields (TimestampField # rest) = metadata_fields rest"
| "metadata_fields (CallerField # rest) = metadata_fields rest"

text \<open>
  The configuration of the package's metadata test, and the logger it compiles to; and a
  configuration with one writer of kind js.
\<close>

definition test_metadata :: "string \<rightharpoonup> any" where
  "test_metadata = [''meow'' \<mapsto> AnyNumber 5, ''foo'' \<mapsto> AnyMap [(''bar'', AnyString ''asd'')]]"

definition metadata_config :: Config where
  "metadata_config =
     \<lparr>Writers = [WriterConfig_zero\<lparr>Type := WriterTypeStdout, Format := LogFormatPretty\<rparr>],
      GlobalMinLevel = None, Timestamp = Some False, Caller = False, Metadata = test_metadata\<rparr>"

definition metadata_logger :: Logger where
  "metadata_logger =
     \<lparr>Logger_w = levelWriterAdapter
        (ConsoleWriter (External ''stdout'' False) True ''2006-01-02T15:04:05.999Z07:00''),
      Logger_level = TraceLevel,
      Logger_context = [InterfaceField ''foo'' (AnyMap [(''bar'', AnyString ''asd'')]),
                        InterfaceField ''meow'' (AnyNumber 5)]\<rparr>"

definition js_config :: Config where
  "js_config =
     \<lparr>Writers = [js_descriptor], GlobalMinLevel = None, Timestamp = Some False,
      Caller = False, Metadata = Map.empty\<rparr>"

text \<open>The format tags the switch of \<^verbatim>\<open>WriterConfig.Compile\<close> accepts.\<close>

definition known_format :: "LogFormat \<Rightarrow> bool" where
  "known_format f = (f = [] \<or> f = LogFormatJSON \<or> f = LogFormatPretty \<or> f = LogFormatPrettyColored)"

text \<open>
  The metadata configuration without writers, with the global minimum level Disabled, and
  with a writer of unknown kind.
\<close>

definition no_writers_config :: Config where
  "no_writers_config = metadata_config\<lparr>Writers := []\<rparr>"

definition disabled_metadata_config :: Config where
  "disabled_metadata_config = metadata_config\<lparr>GlobalMinLevel := Some Disabled\<rparr>"

definition bad_writer_metadata_config :: Config where
  "bad_writer_metadata_config = metadata_config\<lparr>Writers := [WriterConfig_zero\<lparr>Type := ''nope''\<rparr>]\<rparr>"

text \<open>
  A memory with one writer of kind js; and a memory with one writer of the registered kind
  \<^verbatim>\<open>poke\<close> whose lower bound points to a \<^verbatim>\<open>Level\<close> variable holding info, with the
  registry in which \<^verbatim>\<open>compilePoke\<close> is registered for that kind.
\<close>

definition js_memory :: memory where
  "js_memory =
     \<lparr>config = \<lparr>m_Writers = [0], m_GlobalMinLevel = None, m_Timestamp = Some 0,
                 m_Caller = False, m_Metadata = None\<rparr>,
      descriptors = [WriterConfig_mem_zero\<lparr>m_Type := WriterTypeJS, m_Format := ''bogus''\<rparr>],
      levels = [], bools = [False], maps = []\<rparr>"

definition poke_registry :: mem_registry where
  "poke_registry = (own_registry (writerCompilers example_env))(''poke'' \<mapsto> compilePoke)"

definition poke_memory :: memory where
  "poke_memory =
     \<lparr>config = \<lparr>m_Writers = [0], m_GlobalMinLevel = None, m_Timestamp = Some 0,
                 m_Caller = False, m_Metadata = None\<rparr>,
      descriptors = [WriterConfig_mem_zero\<lparr>m_Type := ''poke'', m_MinLevel := Some 0\<rparr>],
      levels = [InfoLevel], bools = [False], maps = []\<rparr>"

section \<open>Facts about the definitions\<close>

lemmas kind_defs = WriterTypeStdout_def WriterTypeStderr_def WriterTypeFile_def
  WriterTypeSyslog_def WriterTypeSyslogCEE_def WriterTypeJournald_def WriterTypeJS_def

lemmas format_defs = LogFormatJSON_def LogFormatPretty_def LogFormatPrettyColored_def

lemmas compiler_defs = compileUnsupported_def compileStdout_def compileStderr_def
  compileFile_def compileSyslog_def compileJournald_def compileJS_def

text \<open>
  No compiler of the package touches the bounds, the time format or the kind of the
  descriptor it is given; the format it leaves alone or sets to JSON.
\<close>

lemma compiler_frame:
  assumes "c = compileUnsupported \<or> c = compileStdout env \<or> c = compileStderr env \<or>
           c = compileFile env \<or> c = compileSyslog env \<or> c = compileJournald \<or> c = compileJS"
  shows "MinLevel (snd (c wc)) = MinLevel wc \<and> MaxLevel (snd (c wc)) = MaxLevel wc \<and>
         TimeFormat (snd (c wc)) = TimeFormat wc \<and> Type (snd (c wc)) = Type wc \<and>
         (Format (snd (c wc)) = Format wc \<or> Format (snd (c wc)) = LogFormatJSON)"
  using assms by (auto simp: compiler_defs Let_def split: option.splits)

lemma builtin_entries:
  assumes "builtin_registry env reg" and "reg t = Some c"
  shows "c = compileUnsupported \<or> c = compileStdout env \<or> c = compileStderr env \<or>
         c = compileFile env \<or> c = compileSyslog env \<or> c = compileJournald \<or> c = compileJS"
  using assms
  by (auto simp: builtin_registry_def writerCompilers_def writerCompilers_unix_def
      writerCompilers_js_def split: if_splits)

lemma builtin_frame:
  assumes "builtin_registry env reg"
  shows "MinLevel (snd (compileMain reg wc)) = MinLevel wc \<and>
         MaxLevel (snd (compileMain reg wc)) = MaxLevel wc \<and>
         TimeFormat (snd (compileMain reg wc)) = TimeFormat wc \<and>
         Type (snd (compileMain reg wc)) = Type wc \<and>
         (Format (snd (compileMain reg wc)) = Format wc \<or>
          Format (snd (compileMain reg wc)) = LogFormatJSON)"
proof (cases "reg (Type wc)")
  case None
  then show ?thesis by (simp add: compileMain_def)
next
  case (Some c)
  have "MinLevel (snd (c wc)) = MinLevel wc \<and> MaxLevel (snd (c wc)) = MaxLevel wc \<and>
        TimeFormat (snd (c wc)) = TimeFormat wc \<and> Type (snd (c wc)) = Type wc \<and>
        (Format (snd (c wc)) = Format wc \<or> Format (snd (c wc)) = LogFormatJSON)"
    using builtin_entries [OF assms Some] by (rule compiler_frame)
  with Some show ?thesis by (simp add: compileMain_def)
qed

lemma show_nat_2: "show_nat 2 = ''2''"
  by code_simp

section \<open>The level window\<close>

text \<open>
  Claim C1, as the spec states it: WriteLevel of the Level-Windowed Writer forwards the
  payload if and only if (min is NoLevel or L >= min) and (max is NoLevel or L <= max), and
  always returns success with a byte count equal to the length of the payload, forwarded or
  not. The second half fails: a forwarded write returns what the inner writer returns. Here
  the window is open, the inner writer fails, and the call returns the failure with count 0
  for a payload of length 1.
\<close>

theorem WriteLevel_failing_inner:
  "fst (WriteLevel failing_sink (MinMaxLevelWriter (External ''sink'' True) NoLevel NoLevel)
          InfoLevel ''x'' ()) = (0, Some (ErrExternal ''write failed''))
   \<and> fst (WriteLevel failing_sink (MinMaxLevelWriter (External ''sink'' True) NoLevel NoLevel)
          InfoLevel ''x'' ()) \<noteq> (int (length ''x''), None)"
  by (simp add: in_window_def level_le_def MinMaxLevelWriter_def failing_sink_def)

text \<open>
  Claim C1, amended: for all bounds min and max, every level L and payload p, WriteLevel
  forwards p, unchanged and with the level L, to the inner writer if and only if
  (min is NoLevel or L >= min) and (max is NoLevel or L <= max). When it forwards, it returns
  what the inner writer returns; when it does not, it leaves the world as it is and returns
  success with a byte count equal to the length of p. The first equation is for any inner
  writer and any world; the other two show the call that reaches a recording sink, with a
  \<^verbatim>\<open>WriteLevel\<close> method (the level is passed on) and without (the adapter drops it).
\<close>

theorem WriteLevel_window:
  "WriteLevel ext (minMaxLevelWriter lw mn mx) l p s =
     (if (mn = NoLevel \<or> sint mn \<le> sint l) \<and> (mx = NoLevel \<or> sint l \<le> sint mx)
      then WriteLevel ext lw l p s
      else ((int (length p), None), s))
   \<and> WriteLevel (recorder r) (MinMaxLevelWriter (External name True) mn mx) l p tr =
     (if (mn = NoLevel \<or> sint mn \<le> sint l) \<and> (mx = NoLevel \<or> sint l \<le> sint mx)
      then (r (External name True) (Some l) p, tr @ [(External name True, Some l, p)])
      else ((int (length p), None), tr))
   \<and> WriteLevel (recorder r) (MinMaxLevelWriter (External name False) mn mx) l p tr =
     (if (mn = NoLevel \<or> sint mn \<le> sint l) \<and> (mx = NoLevel \<or> sint l \<le> sint mx)
      then (r (External name False) None p, tr @ [(External name False, None, p)])
      else ((int (length p), None), tr))"
  by (simp add: in_window_def level_le_def MinMaxLevelWriter_def recorder_def)

text \<open>
  Claim C4: for bounded levels with min > max, constructing the Level-Windowed Writer is
  accepted without a validation error (the constructor and \<^verbatim>\<open>WriterConfig.Compile\<close> return
  the writer with exactly these bounds), and the writer forwards no record of any level:
  every write leaves the world as it is and returns success with the payload's length. With
  both bounds NoLevel every level is forwarded to the inner writer (through the adapter when
  the inner writer has no \<^verbatim>\<open>WriteLevel\<close>), as the recording sink shows.
\<close>

theorem reversed_window_filters_all:
  "(sint mx < sint mn \<and> mn \<noteq> NoLevel \<and> mx \<noteq> NoLevel \<longrightarrow>
      WriteLevel ext (MinMaxLevelWriter wr mn mx) l p s = ((int (length p), None), s))
   \<and> WriteLevel ext (MinMaxLevelWriter wr NoLevel NoLevel) l p s =
       WriteLevel ext (if is_LevelWriter wr then wr else levelWriterAdapter wr) l p s
   \<and> snd (WriteLevel (recorder r) (MinMaxLevelWriter (External name lw) NoLevel NoLevel) l p tr) =
       tr @ [(External name lw, if lw then Some l else None, p)]
   \<and> (compileMain reg wc = ((out, None), wc1) \<and> formatOutput wc1 out = (out2, None) \<and>
      MinLevel wc1 = Some mn \<and> MaxLevel wc1 = Some mx \<longrightarrow>
        WriterConfig_Compile reg wc = ((MinMaxLevelWriter out2 mn mx, None), wc1))"
  by (auto simp: MinMaxLevelWriter_def in_window_def level_le_def recorder_def
      WriterConfig_Compile_def levelPtr_def)

text \<open>
  The witness: a stdout descriptor with min = error and max = info compiles to the window
  [error, info] around the adapter of the stream, and a write at warn reaches nothing.
\<close>

theorem reversed_window_filters_all_witness:
  "sint InfoLevel < sint ErrorLevel \<and> ErrorLevel \<noteq> NoLevel \<and> InfoLevel \<noteq> NoLevel
   \<and> MinLevel reversed_descriptor = Some ErrorLevel
   \<and> MaxLevel reversed_descriptor = Some InfoLevel
   \<and> WriterConfig_Compile (writerCompilers example_env) reversed_descriptor =
     ((minMaxLevelWriter (levelWriterAdapter (External ''stdout'' False)) ErrorLevel InfoLevel, None),
      reversed_descriptor)
   \<and> WriteLevel (recorder accepting)
       (minMaxLevelWriter (levelWriterAdapter (External ''stdout'' False)) ErrorLevel InfoLevel)
       WarnLevel ''{}'' [] = ((2, None), [])"
proof -
  have m: "compileMain (writerCompilers example_env) reversed_descriptor =
      ((External ''stdout'' False, None), reversed_descriptor)"
    by (simp add: compileMain_def writerCompilers_def reversed_descriptor_def kind_defs
        compileStdout_def example_env_def)
  have f: "formatOutput reversed_descriptor (External ''stdout'' False) =
      (External ''stdout'' False, None)"
    by (simp add: formatOutput_def reversed_descriptor_def WriterConfig_zero_def)
  have b: "MinLevel reversed_descriptor = Some ErrorLevel"
    "MaxLevel reversed_descriptor = Some InfoLevel"
    by (simp_all add: reversed_descriptor_def)
  have o: "sint InfoLevel < sint ErrorLevel" "ErrorLevel \<noteq> NoLevel" "InfoLevel \<noteq> NoLevel"
    by (simp_all add: InfoLevel_def ErrorLevel_def NoLevel_def)
  show ?thesis
    using reversed_window_filters_all [where mx = InfoLevel and mn = ErrorLevel
        and ext = "recorder accepting" and wr = "External ''stdout'' False" and l = WarnLevel
        and p = "''{}''" and s = "[]" and reg = "writerCompilers example_env"
        and wc = reversed_descriptor and out = "External ''stdout'' False"
        and ?wc1.0 = reversed_descriptor and ?out2.0 = "External ''stdout'' False"] m f b o
    by (simp add: MinMaxLevelWriter_def)
qed

section \<open>The registry\<close>

text \<open>
  Claim C8: registering c1 and then c2 for the same kind leaves the registry resolving the
  kind to c2, and \<^verbatim>\<open>compileMain\<close> on a descriptor of that kind runs c2; after one
  registration the kind resolves to that constructor. Registration returns the registry (there
  is no error to return), changes no other entry, and removes none: the kinds known afterwards
  are the kinds known before and the registered one.
\<close>

theorem RegisterWriter_last_wins:
  "RegisterWriter wt c2 (RegisterWriter wt c1 reg) wt = Some c2
   \<and> RegisterWriter wt c1 reg wt = Some c1
   \<and> compileMain (RegisterWriter wt c2 (RegisterWriter wt c1 reg)) (wc\<lparr>Type := wt\<rparr>) =
       c2 (wc\<lparr>Type := wt\<rparr>)
   \<and> compileMain (RegisterWriter wt c1 reg) (wc\<lparr>Type := wt\<rparr>) = c1 (wc\<lparr>Type := wt\<rparr>)
   \<and> RegisterWriter wt c1 reg t = (if t = wt then Some c1 else reg t)
   \<and> dom (RegisterWriter wt c1 reg) = insert wt (dom reg)"
  by (simp add: RegisterWriter_def compileMain_def)

section \<open>Compiling one descriptor\<close>

text \<open>
  Claim C5: when the kind resolves, the constructor succeeds and the format step succeeds
  with the formatted writer out2, \<^verbatim>\<open>WriterConfig.Compile\<close> returns out2 itself when
  neither bound is present on the descriptor, and otherwise the Level-Windowed Writer around
  out2 with the descriptor's bounds, an absent bound being NoLevel. The bounds are read from
  the descriptor after the constructor has run on it; for the registries the package builds
  they are the bounds the descriptor had before.
\<close>

theorem Compile_wraps_bounds:
  assumes "compileMain reg wc = ((out, None), wc1)" and "formatOutput wc1 out = (out2, None)"
  shows "WriterConfig_Compile reg wc =
           ((if MinLevel wc1 = None \<and> MaxLevel wc1 = None then out2
             else MinMaxLevelWriter out2
                    (case MinLevel wc1 of None \<Rightarrow> NoLevel | Some l \<Rightarrow> l)
                    (case MaxLevel wc1 of None \<Rightarrow> NoLevel | Some l \<Rightarrow> l), None), wc1)
         \<and> (builtin_registry env reg \<longrightarrow> MinLevel wc1 = MinLevel wc \<and> MaxLevel wc1 = MaxLevel wc)"
proof -
  have "builtin_registry env reg \<Longrightarrow> MinLevel wc1 = MinLevel wc \<and> MaxLevel wc1 = MaxLevel wc"
    using builtin_frame [of env reg wc] assms(1) by simp
  moreover have "WriterConfig_Compile reg wc =
           ((if MinLevel wc1 = None \<and> MaxLevel wc1 = None then out2
             else MinMaxLevelWriter out2
                    (case MinLevel wc1 of None \<Rightarrow> NoLevel | Some l \<Rightarrow> l)
                    (case MaxLevel wc1 of None \<Rightarrow> NoLevel | Some l \<Rightarrow> l), None), wc1)"
    using assms by (simp add: WriterConfig_Compile_def levelPtr_def)
  ultimately show ?thesis by blast
qed

lemma stdout_compileMain:
  "compileMain (writerCompilers example_env) (stdout_descriptor\<lparr>MinLevel := Some ErrorLevel\<rparr>) =
     ((External ''stdout'' False, None), stdout_descriptor\<lparr>MinLevel := Some ErrorLevel\<rparr>)"
  by (simp add: compileMain_def writerCompilers_def stdout_descriptor_def kind_defs
      compileStdout_def example_env_def)

lemma stdout_formatOutput:
  "formatOutput (stdout_descriptor\<lparr>MinLevel := Some ErrorLevel\<rparr>) (External ''stdout'' False) =
     (External ''stdout'' False, None)"
  by (simp add: formatOutput_def stdout_descriptor_def WriterConfig_zero_def)

text \<open>
  The witness: a stdout descriptor with only the lower bound error gets the window
  [error, NoLevel].
\<close>

theorem Compile_wraps_bounds_witness:
  "compileMain (writerCompilers example_env) (stdout_descriptor\<lparr>MinLevel := Some ErrorLevel\<rparr>) =
     ((External ''stdout'' False, None), stdout_descriptor\<lparr>MinLevel := Some ErrorLevel\<rparr>)
   \<and> formatOutput (stdout_descriptor\<lparr>MinLevel := Some ErrorLevel\<rparr>) (External ''stdout'' False) =
     (External ''stdout'' False, None)
   \<and> builtin_registry example_env (writerCompilers example_env)
   \<and> WriterConfig_Compile (writerCompilers example_env) (stdout_descriptor\<lparr>MinLevel := Some ErrorLevel\<rparr>) =
     ((minMaxLevelWriter (levelWriterAdapter (External ''stdout'' False)) ErrorLevel NoLevel, None),
      stdout_descriptor\<lparr>MinLevel := Some ErrorLevel\<rparr>)"
  using Compile_wraps_bounds [OF stdout_compileMain stdout_formatOutput, of example_env]
    stdout_compileMain stdout_formatOutput
  by (simp add: stdout_descriptor_def WriterConfig_zero_def MinMaxLevelWriter_def
      builtin_registry_def)

text \<open>
  Claim C7: for a descriptor whose format tag is pretty or pretty-colored (and whose kind
  resolved to a constructor that succeeded), the format step builds the pretty decorator
  around the constructor's writer, without colour exactly for the tag pretty, and the
  decorator's time format is the descriptor's \<^verbatim>\<open>time_format\<close> when that is not empty and
  \<^verbatim>\<open>2006-01-02T15:04:05.999Z07:00\<close> otherwise; \<^verbatim>\<open>WriterConfig.Compile\<close> returns this
  decorator, inside a level window when a bound is present. Format and time format are read
  after the constructor has run; for the registries the package builds they are the ones the
  descriptor had before.
\<close>

theorem pretty_time_format:
  assumes "compileMain reg wc = ((out, None), wc1)"
    and "Format wc1 = LogFormatPretty \<or> Format wc1 = LogFormatPrettyColored"
  shows "(let cw = ConsoleWriter out (Format wc1 = LogFormatPretty)
                     (if TimeFormat wc1 \<noteq> [] then TimeFormat wc1
                      else ''2006-01-02T15:04:05.999Z07:00'')
          in formatOutput wc1 out = (cw, None) \<and>
             WriterConfig_Compile reg wc =
               ((if MinLevel wc1 = None \<and> MaxLevel wc1 = None then cw
                 else minMaxLevelWriter (levelWriterAdapter cw)
                        (levelPtr (MinLevel wc1)) (levelPtr (MaxLevel wc1)), None), wc1))
         \<and> (builtin_registry env reg \<longrightarrow> TimeFormat wc1 = TimeFormat wc \<and> Format wc1 = Format wc)"
proof -
  have "builtin_registry env reg \<Longrightarrow> TimeFormat wc1 = TimeFormat wc \<and> Format wc1 = Format wc"
    using builtin_frame [of env reg wc] assms by (auto simp: format_defs)
  moreover have "(let cw = ConsoleWriter out (Format wc1 = LogFormatPretty)
                     (if TimeFormat wc1 \<noteq> [] then TimeFormat wc1
                      else ''2006-01-02T15:04:05.999Z07:00'')
          in formatOutput wc1 out = (cw, None) \<and>
             WriterConfig_Compile reg wc =
               ((if MinLevel wc1 = None \<and> MaxLevel wc1 = None then cw
                 else minMaxLevelWriter (levelWriterAdapter cw)
                        (levelPtr (MinLevel wc1)) (levelPtr (MaxLevel wc1)), None), wc1))"
    using assms
    by (auto simp: formatOutput_def WriterConfig_Compile_def defaultTimeFormat_def format_defs
        MinMaxLevelWriter_def Let_def)
  ultimately show ?thesis by blast
qed

lemma pretty_compileMain:
  "compileMain (writerCompilers example_env) pretty_descriptor =
     ((External ''stdout'' False, None), pretty_descriptor)"
  by (simp add: compileMain_def writerCompilers_def pretty_descriptor_def kind_defs
      compileStdout_def example_env_def)

text \<open>
  The witness: the descriptor of the package's test, kind stdout, format pretty, time
  format \<^verbatim>\<open>2006\<close>.
\<close>

theorem pretty_time_format_witness:
  "compileMain (writerCompilers example_env) pretty_descriptor =
     ((External ''stdout'' False, None), pretty_descriptor)
   \<and> Format pretty_descriptor = LogFormatPretty
   \<and> TimeFormat pretty_descriptor = ''2006''
   \<and> WriterConfig_Compile (writerCompilers example_env) pretty_descriptor =
     ((ConsoleWriter (External ''stdout'' False) True ''2006'', None), pretty_descriptor)"
proof -
  have f: "Format pretty_descriptor = LogFormatPretty \<or>
           Format pretty_descriptor = LogFormatPrettyColored"
    by (simp add: pretty_descriptor_def)
  show ?thesis
    using pretty_time_format [OF pretty_compileMain f, of example_env] pretty_compileMain
    by (simp add: pretty_descriptor_def WriterConfig_zero_def Let_def)
qed

text \<open>
  Claim C9: in a registry that resolves the kind js to \<^verbatim>\<open>compileJS\<close>, as the registry of
  the js build does, compiling a descriptor of kind js always succeeds, whatever its format
  tag: the constructor sets the format to the JSON tag before the format step reads it, so
  the result is the JS console writer itself (inside a level window when a bound is present),
  never a pretty decorator and never the error "unknown format".
\<close>

theorem js_always_json:
  assumes "reg WriterTypeJS = Some compileJS" and "Type wc = WriterTypeJS"
  shows "WriterConfig_Compile reg wc =
           ((if MinLevel wc = None \<and> MaxLevel wc = None then JSWriter
             else minMaxLevelWriter JSWriter (levelPtr (MinLevel wc)) (levelPtr (MaxLevel wc)),
             None), wc\<lparr>Format := LogFormatJSON\<rparr>)
         \<and> snd (fst (WriterConfig_Compile reg wc)) \<noteq> Some (ErrUnknownFormat (Format wc))
         \<and> writerCompilers_js env WriterTypeJS = Some compileJS"
  using assms
  by (auto simp: WriterConfig_Compile_def compileMain_def compileJS_def formatOutput_def
      MinMaxLevelWriter_def writerCompilers_js_def)

text \<open>The witness: kind js with the format tag \<^verbatim>\<open>bogus\<close>, in the registry of the js build.\<close>

theorem js_always_json_witness:
  "writerCompilers_js example_env WriterTypeJS = Some compileJS
   \<and> Type js_descriptor = WriterTypeJS
   \<and> Format js_descriptor = ''bogus''
   \<and> WriterConfig_Compile (writerCompilers_js example_env) js_descriptor =
     ((JSWriter, None), js_descriptor\<lparr>Format := LogFormatJSON\<rparr>)"
proof -
  have r: "writerCompilers_js example_env WriterTypeJS = Some compileJS"
    by (simp add: writerCompilers_js_def)
  have t: "Type js_descriptor = WriterTypeJS"
    by (simp add: js_descriptor_def)
  show ?thesis
    using js_always_json [of "writerCompilers_js example_env" js_descriptor example_env] r t
    by (simp add: js_descriptor_def WriterConfig_zero_def)
qed

section \<open>Compiling a configuration: the two early exits and the errors\<close>

lemma Nop_silent_call: "log_call ext enc Nop call s = s"
  by (simp add: log_call_def Nop_def New_def Level_of_def)

lemma Nop_silent: "log_calls ext enc Nop calls s = s"
  unfolding log_calls_def by (induction calls arbitrary: s) (simp_all add: Nop_silent_call)

text \<open>
  Claim C2: for every configuration whose list of writers is empty, and for every
  configuration whose global minimum level is Disabled, \<^verbatim>\<open>Config.Compile\<close> succeeds and
  returns the no-op logger, whatever the registry, the other fields and the writers say; and
  the no-op logger leaves the world as it is for every sequence of log calls, at any levels,
  whatever the external writers would do and however records are encoded.
\<close>

theorem Compile_nop:
  assumes "Writers c = [] \<or> GlobalMinLevel c = Some Disabled"
  shows "Config_Compile reg ks c = (Some Nop, None) \<and> log_calls ext enc Nop calls s = s"
  using assms by (auto simp: Config_Compile_def Nop_silent)

text \<open>
  The witness: global minimum Disabled, and one writer that could not be compiled (its format
  tag is unknown); two calls on the result reach no sink.
\<close>

theorem Compile_nop_witness:
  "GlobalMinLevel disabled_config = Some Disabled
   \<and> Config_Compile (writerCompilers example_env) [] disabled_config = (Some Nop, None)
   \<and> log_calls (recorder accepting) plain_enc Nop
        [(InfoLevel, ''meow''), (PanicLevel, ''meow'')] [] = []"
proof -
  have h: "Writers disabled_config = [] \<or> GlobalMinLevel disabled_config = Some Disabled"
    by (simp add: disabled_config_def)
  show ?thesis
    using Compile_nop [OF h, where reg = "writerCompilers example_env" and ks = "[]"
        and ext = "recorder accepting" and enc = plain_enc
        and calls = "[(InfoLevel, ''meow''), (PanicLevel, ''meow'')]" and s = "[]"]
    by (simp add: disabled_config_def)
qed

lemma compile_writers_prefix:
  assumes "\<forall>w\<in>set pre. snd (fst (WriterConfig_Compile reg w)) = None"
    and "fst (WriterConfig_Compile reg wc) = (wr, Some err)"
  shows "compile_writers reg i (pre @ wc # post) = Inl (ErrFailedToParse (i + length pre + 1) err)"
  using assms
proof (induction pre arbitrary: i)
  case Nil
  then show ?case by simp
next
  case (Cons a pre)
  then have "compile_writers reg (i + 1) (pre @ wc # post) =
      Inl (ErrFailedToParse (i + 1 + length pre + 1) err)"
    by simp
  moreover obtain wa where "fst (WriterConfig_Compile reg a) = (wa, None)"
    using Cons.prems(1) by (cases "fst (WriterConfig_Compile reg a)") auto
  ultimately show ?case by simp
qed

lemma unknown_kind_fails:
  "reg (Type wc) = None \<Longrightarrow>
     fst (WriterConfig_Compile reg wc) = (NilWriter, Some (ErrUnknownWriterType (Type wc)))"
  by (simp add: WriterConfig_Compile_def compileMain_def)

lemma compile_writers_first_failure:
  assumes "i < length ws" and "snd (fst (WriterConfig_Compile reg (ws ! i))) \<noteq> None"
  shows "\<exists>k wr err. k \<le> i \<and> (\<forall>j<k. snd (fst (WriterConfig_Compile reg (ws ! j))) = None) \<and>
           fst (WriterConfig_Compile reg (ws ! k)) = (wr, Some err) \<and>
           compile_writers reg n ws = Inl (ErrFailedToParse (n + k + 1) err)"
proof -
  define k where "k = (LEAST j. snd (fst (WriterConfig_Compile reg (ws ! j))) \<noteq> None)"
  have kf: "snd (fst (WriterConfig_Compile reg (ws ! k))) \<noteq> None"
    unfolding k_def using assms(2) by (rule LeastI)
  have ki: "k \<le> i"
    unfolding k_def using assms(2) by (rule Least_le)
  have before: "snd (fst (WriterConfig_Compile reg (ws ! j))) = None" if "j < k" for j
    using that not_less_Least unfolding k_def by blast
  obtain wr err where f: "fst (WriterConfig_Compile reg (ws ! k)) = (wr, Some err)"
    using kf by (cases "fst (WriterConfig_Compile reg (ws ! k))") auto
  have kl: "k < length ws" using ki assms(1) by simp
  have split: "ws = take k ws @ ws ! k # drop (Suc k) ws"
    using kl by (rule id_take_nth_drop)
  have pre: "\<forall>w\<in>set (take k ws). snd (fst (WriterConfig_Compile reg w)) = None"
  proof
    fix w assume "w \<in> set (take k ws)"
    then obtain j where "j < k" "w = ws ! j"
      using kl by (auto simp: in_set_conv_nth)
    then show "snd (fst (WriterConfig_Compile reg w)) = None" using before by simp
  qed
  have "compile_writers reg n (take k ws @ ws ! k # drop (Suc k) ws) =
        Inl (ErrFailedToParse (n + length (take k ws) + 1) err)"
    using pre f by (rule compile_writers_prefix)
  then have "compile_writers reg n ws = Inl (ErrFailedToParse (n + k + 1) err)"
    using split kl by simp
  then show ?thesis using ki before f by blast
qed

lemma bad_entry_fails:
  assumes "reg (Type wc) = None \<or> \<not> known_format (Format (snd (compileMain reg wc)))"
  shows "snd (fst (WriterConfig_Compile reg wc)) \<noteq> None"
proof (cases "compileMain reg wc")
  case (Pair r wc1)
  obtain out e where r: "r = (out, e)" by (cases r)
  show ?thesis
    using assms Pair r
    by (cases e) (auto simp: WriterConfig_Compile_def formatOutput_def known_format_def
        compileMain_def)
qed

lemma native_registry_keeps_format:
  assumes "reg = writerCompilers env \<or> reg = writerCompilers_unix env"
  shows "Format (snd (compileMain reg wc)) = Format wc"
  using assms
  by (auto simp: compileMain_def writerCompilers_def writerCompilers_unix_def compiler_defs
      Let_def split: option.splits if_splits)

text \<open>
  Claim C3, as the spec states it: every configuration that contains a descriptor with an
  unknown kind or an unknown format tag fails to compile, with no logger, and the error names
  the 1-based position of that descriptor and the bad tag. It fails in three ways. When the
  global minimum level is Disabled the writers are never looked at: the result is the no-op
  logger and no error. The loop stops at the first descriptor that fails for any reason:
  with the kind syslog first (not supported in the base registry) and the unknown kind second,
  the compilation does fail, but the error names position 1 and the kind syslog, not
  position 2 and the bad tag. And the format tag is read after the constructor has run: in
  the registry of the js build a writer of kind js with the tag \<^verbatim>\<open>bogus\<close> compiles.
\<close>

theorem Compile_bad_writer_counterexample:
  "Config_Compile (writerCompilers example_env) [] disabled_bad_config = (Some Nop, None)
   \<and> Config_Compile (writerCompilers example_env) [] unsupported_first_config =
       (None, Some (ErrFailedToParse 1 (ErrNotSupported ''syslog'')))
   \<and> Format (Writers js_config ! 0) = ''bogus''
   \<and> Config_Compile (writerCompilers_js example_env) [] js_config =
       (Some \<lparr>Logger_w = JSWriter, Logger_level = TraceLevel, Logger_context = []\<rparr>, None)"
  by (simp add: Config_Compile_def disabled_bad_config_def unsupported_first_config_def
      bad_kind_config_def WriterConfig_Compile_def compileMain_def writerCompilers_def kind_defs
      compileUnsupported_def js_config_def js_descriptor_def writerCompilers_js_def compileJS_def
      formatOutput_def WriterConfig_zero_def assemble_def New_def)

text \<open>
  Claim C3, amended: let the global minimum level not be Disabled. If any writer entry has
  a kind that does not resolve in the registry, or is left by its constructor with a format
  tag that is none of the empty tag, json, pretty and pretty-colored, then
  \<^verbatim>\<open>Config.Compile\<close> fails: it returns no logger, and the error is
  "failed to parse config for writer #k: " followed by the error of the entry at position k,
  where k is the 1-based position of the first entry that fails to compile, at or before the
  bad entry. When entry k is itself of unknown kind, its error is "unknown writer type"
  followed by the quoted kind; when its constructor succeeded and left an unknown format tag,
  "unknown format" followed by the quoted tag. The first conjunct is the failure for a bad
  entry at any position i (0-based); the second gives the error when the entries before
  position k (the list \<open>pre\<close>) compile and entry k fails, for any cause and for the two
  causes of the claim; the next three are the texts; the last says that in the registries
  of the builds other than js the constructor leaves the format tag as the descriptor has it.
\<close>

theorem Compile_bad_writer_fails:
  assumes "GlobalMinLevel c \<noteq> Some Disabled"
  shows "(i < length (Writers c) \<and>
          (reg (Type (Writers c ! i)) = None \<or>
           \<not> known_format (Format (snd (compileMain reg (Writers c ! i))))) \<longrightarrow>
            (\<exists>k wr err. k \<le> i \<and>
               (\<forall>j<k. snd (fst (WriterConfig_Compile reg (Writers c ! j))) = None) \<and>
               fst (WriterConfig_Compile reg (Writers c ! k)) = (wr, Some err) \<and>
               Config_Compile reg ks c = (None, Some (ErrFailedToParse (k + 1) err))))
       \<and> (Writers c = pre @ wc # post \<and>
          (\<forall>w\<in>set pre. snd (fst (WriterConfig_Compile reg w)) = None) \<longrightarrow>
            (fst (WriterConfig_Compile reg wc) = (wr0, Some err0) \<longrightarrow>
               Config_Compile reg ks c = (None, Some (ErrFailedToParse (length pre + 1) err0)))
          \<and> (reg (Type wc) = None \<longrightarrow>
               Config_Compile reg ks c =
                 (None, Some (ErrFailedToParse (length pre + 1) (ErrUnknownWriterType (Type wc)))))
          \<and> (compileMain reg wc = ((out, None), wc1) \<and> \<not> known_format (Format wc1) \<longrightarrow>
               Config_Compile reg ks c =
                 (None, Some (ErrFailedToParse (length pre + 1) (ErrUnknownFormat (Format wc1))))))
       \<and> Error_text q (ErrFailedToParse n e) =
           ''failed to parse config for writer #'' @ show_nat n @ '': '' @ Error_text q e
       \<and> Error_text q (ErrUnknownWriterType t) = ''unknown writer type '' @ q t
       \<and> Error_text q (ErrUnknownFormat f) = ''unknown format '' @ q f
       \<and> (reg = writerCompilers env \<or> reg = writerCompilers_unix env \<longrightarrow>
            Format (snd (compileMain reg d)) = Format d)"
proof -
  have nonempty: "Writers c \<noteq> []" if "i < length (Writers c)" for i
    using that by auto
  have A: "\<exists>k wr err. k \<le> i \<and>
               (\<forall>j<k. snd (fst (WriterConfig_Compile reg (Writers c ! j))) = None) \<and>
               fst (WriterConfig_Compile reg (Writers c ! k)) = (wr, Some err) \<and>
               Config_Compile reg ks c = (None, Some (ErrFailedToParse (k + 1) err))"
    if i: "i < length (Writers c)"
      and bad: "reg (Type (Writers c ! i)) = None \<or>
           \<not> known_format (Format (snd (compileMain reg (Writers c ! i))))"
  proof -
    from compile_writers_first_failure [OF i bad_entry_fails [OF bad], of 0]
    obtain k wr err where "k \<le> i"
      "\<forall>j<k. snd (fst (WriterConfig_Compile reg (Writers c ! j))) = None"
      "fst (WriterConfig_Compile reg (Writers c ! k)) = (wr, Some err)"
      "compile_writers reg 0 (Writers c) = Inl (ErrFailedToParse (0 + k + 1) err)"
      by blast
    moreover have "Config_Compile reg ks c = (None, Some (ErrFailedToParse (k + 1) err))"
      using calculation(4) assms nonempty [OF i] by (simp add: Config_Compile_def)
    ultimately show ?thesis by blast
  qed
  have B: "Config_Compile reg ks c = (None, Some (ErrFailedToParse (length pre + 1) err))"
    if "Writers c = pre @ wc # post"
      "\<forall>w\<in>set pre. snd (fst (WriterConfig_Compile reg w)) = None"
      "fst (WriterConfig_Compile reg wc) = (wr, Some err)" for wr err
    using compile_writers_prefix [OF that(2,3), of 0 post] assms that(1)
    by (simp add: Config_Compile_def)
  have F: "fst (WriterConfig_Compile reg wc) = (NilWriter, Some (ErrUnknownFormat (Format wc1)))"
    if "compileMain reg wc = ((out, None), wc1)" "\<not> known_format (Format wc1)"
    using that by (simp add: WriterConfig_Compile_def formatOutput_def known_format_def)
  show ?thesis
    using A B unknown_kind_fails [of reg wc] F native_registry_keeps_format [of reg env d]
    by auto
qed

lemma stdout_zero_ok:
  "snd (fst (WriterConfig_Compile (writerCompilers example_env)
               (WriterConfig_zero\<lparr>Type := WriterTypeStdout\<rparr>))) = None"
  by (simp add: WriterConfig_Compile_def compileMain_def writerCompilers_def kind_defs
      compileStdout_def formatOutput_def WriterConfig_zero_def)

text \<open>
  The witness: a good stdout writer followed by the unknown kind \<^verbatim>\<open>nope\<close>, the same
  followed by a stderr writer with the format tag \<^verbatim>\<open>xml\<close>, and the unsupported kind
  syslog followed by the unknown kind. The first two errors name writer #2 and the tag; the
  third configuration fails too, and its error names writer #1, the first that failed.
\<close>

theorem Compile_bad_writer_fails_witness:
  "GlobalMinLevel bad_kind_config \<noteq> Some Disabled
   \<and> GlobalMinLevel bad_format_config \<noteq> Some Disabled
   \<and> GlobalMinLevel unsupported_first_config \<noteq> Some Disabled
   \<and> writerCompilers example_env ''nope'' = None
   \<and> Config_Compile (writerCompilers example_env) [] bad_kind_config =
     (None, Some (ErrFailedToParse 2 (ErrUnknownWriterType ''nope'')))
   \<and> Error_text plain_quote (ErrFailedToParse 2 (ErrUnknownWriterType ''nope'')) =
       ''failed to parse config for writer #2: unknown writer type '' @ plain_quote ''nope''
   \<and> Config_Compile (writerCompilers example_env) [] bad_format_config =
     (None, Some (ErrFailedToParse 2 (ErrUnknownFormat ''xml'')))
   \<and> Error_text plain_quote (ErrFailedToParse 2 (ErrUnknownFormat ''xml'')) =
       ''failed to parse config for writer #2: unknown format '' @ plain_quote ''xml''
   \<and> fst (Config_Compile (writerCompilers example_env) [] unsupported_first_config) = None
   \<and> Config_Compile (writerCompilers example_env) [] unsupported_first_config =
     (None, Some (ErrFailedToParse 1 (ErrNotSupported ''syslog'')))"
proof -
  let ?reg = "writerCompilers example_env"
  let ?w1 = "WriterConfig_zero\<lparr>Type := WriterTypeStdout\<rparr>"
  let ?w2 = "WriterConfig_zero\<lparr>Type := ''nope''\<rparr>"
  let ?w3 = "WriterConfig_zero\<lparr>Type := WriterTypeStderr, Format := ''xml''\<rparr>"
  let ?w4 = "WriterConfig_zero\<lparr>Type := WriterTypeSyslog\<rparr>"
  have pre: "\<forall>w\<in>set [?w1]. snd (fst (WriterConfig_Compile ?reg w)) = None"
    using stdout_zero_ok by simp
  have a1: "GlobalMinLevel bad_kind_config \<noteq> Some Disabled"
    and a2: "Writers bad_kind_config = [?w1] @ ?w2 # []"
    by (simp_all add: bad_kind_config_def)
  have b1: "GlobalMinLevel bad_format_config \<noteq> Some Disabled"
    and b2: "Writers bad_format_config = [?w1] @ ?w3 # []"
    by (simp_all add: bad_format_config_def)
  have c1: "GlobalMinLevel unsupported_first_config \<noteq> Some Disabled"
    and c2: "Writers unsupported_first_config = [] @ ?w4 # [?w2]"
    and c3: "1 < length (Writers unsupported_first_config)"
    and c4: "Writers unsupported_first_config ! 1 = ?w2"
    by (simp_all add: unsupported_first_config_def bad_kind_config_def)
  have k: "?reg (Type ?w2) = None" and k': "?reg ''nope'' = None"
    by (simp_all add: writerCompilers_def kind_defs)
  have m: "compileMain ?reg ?w3 = ((External ''stderr'' False, None), ?w3)"
    by (simp add: compileMain_def writerCompilers_def kind_defs compileStderr_def example_env_def)
  have f: "\<not> known_format (Format ?w3)"
    by (simp add: known_format_def format_defs)
  have u: "fst (WriterConfig_Compile ?reg ?w4) = (NilWriter, Some (ErrNotSupported ''syslog''))"
    by (simp add: WriterConfig_Compile_def compileMain_def writerCompilers_def kind_defs
        compileUnsupported_def)
  from Compile_bad_writer_fails [OF a1, where reg = ?reg and ks = "[]" and q = plain_quote
      and pre = "[?w1]" and wc = ?w2 and post = "[]" and n = 2 and t = "''nope''"
      and e = "ErrUnknownWriterType ''nope''"] a2 pre k
  have r1: "Config_Compile ?reg [] bad_kind_config =
     (None, Some (ErrFailedToParse 2 (ErrUnknownWriterType ''nope'')))
   \<and> Error_text plain_quote (ErrFailedToParse 2 (ErrUnknownWriterType ''nope'')) =
       ''failed to parse config for writer #2: unknown writer type '' @ plain_quote ''nope''"
    by (simp add: show_nat_2)
  from Compile_bad_writer_fails [OF b1, where reg = ?reg and ks = "[]" and q = plain_quote
      and pre = "[?w1]" and wc = ?w3 and post = "[]" and n = 2 and f = "''xml''"
      and e = "ErrUnknownFormat ''xml''"
      and out = "External ''stderr'' False" and ?wc1.0 = ?w3] b2 pre m f
  have r2: "Config_Compile ?reg [] bad_format_config =
     (None, Some (ErrFailedToParse 2 (ErrUnknownFormat ''xml'')))
   \<and> Error_text plain_quote (ErrFailedToParse 2 (ErrUnknownFormat ''xml'')) =
       ''failed to parse config for writer #2: unknown format '' @ plain_quote ''xml''"
    by (simp add: show_nat_2)
  note T = Compile_bad_writer_fails [OF c1, where reg = ?reg and ks = "[]" and i = 1
      and pre = "[]" and wc = ?w4 and post = "[?w2]" and ?wr0.0 = NilWriter
      and ?err0.0 = "ErrNotSupported ''syslog''" and out = NilWriter and ?wc1.0 = ?w4]
  have "reg0 (Type (Writers unsupported_first_config ! 1)) = None" if "reg0 = ?reg" for reg0
    using that c4 k by simp
  then have bad: "1 < length (Writers unsupported_first_config) \<and>
      (?reg (Type (Writers unsupported_first_config ! 1)) = None \<or>
       \<not> known_format (Format (snd (compileMain ?reg (Writers unsupported_first_config ! 1)))))"
    using c3 by blast
  have "\<exists>k wr err. Config_Compile ?reg [] unsupported_first_config =
      (None, Some (ErrFailedToParse (k + 1) err))"
    using T [THEN conjunct1, THEN mp, OF bad] by blast
  then have r3: "fst (Config_Compile ?reg [] unsupported_first_config) = None"
    by auto
  have r4: "Config_Compile ?reg [] unsupported_first_config =
     (None, Some (ErrFailedToParse 1 (ErrNotSupported ''syslog'')))"
    using T c2 u by simp
  show ?thesis using a1 b1 c1 k' r1 r2 r3 r4 by blast
qed

section \<open>The metadata fields\<close>

lemma metadata_fields_append:
  "metadata_fields (xs @ ys) = metadata_fields xs @ metadata_fields ys"
  by (induction xs rule: metadata_fields.induct) simp_all

lemma attach_metadata_fields:
  "metadata_fields (Logger_context (attach_metadata m keys lg)) =
     metadata_fields (Logger_context lg) @ map (\<lambda>k. (k, metadata_value m k)) keys"
  by (induction keys arbitrary: lg) (simp_all add: attach_def metadata_fields_append)

lemma assemble_fields:
  "metadata_fields (Logger_context (assemble ks c writers)) =
     map (\<lambda>k. (k, metadata_value (Metadata c) k)) (sort ks)"
  by (cases ks) (auto simp: assemble_def Let_def New_def attach_def Level_of_def
      attach_metadata_fields split: option.splits)

lemma key_order_sort:
  assumes "key_order m ks"
  shows "sort ks = sorted_list_of_set (dom m)"
proof -
  have "sorted_list_of_set (set ks) = sort (remdups ks)"
    by (rule sorted_list_of_set_sort_remdups)
  moreover have "remdups ks = ks" "set ks = dom m"
    using assms by (simp_all add: key_order_def)
  ultimately show ?thesis by simp
qed

lemma assemble_order:
  assumes "key_order (Metadata c) ks" and "key_order (Metadata c) ks'"
  shows "assemble ks c writers = assemble ks' c writers"
proof -
  have h1: "sort ks = sort ks'"
    using assms by (simp add: key_order_sort)
  have h2: "(length ks > 0) = (length ks' > 0)"
    using assms by (auto simp: key_order_def)
  show ?thesis
    unfolding assemble_def h1 h2 by (rule refl)
qed

text \<open>
  Claim C6, as the spec states it: for every configuration with a non-empty metadata mapping
  \<^verbatim>\<open>Config.Compile\<close> attaches the metadata fields to the logger, in sorted order of their
  keys. It fails where no logger is assembled: with no writers, and with the global minimum
  level Disabled, the result is the no-op logger, which carries no field; and when a writer
  does not compile there is no logger at all.
\<close>

theorem metadata_dropped_counterexample:
  "dom (Metadata no_writers_config) = {''foo'', ''meow''}
   \<and> Config_Compile (writerCompilers example_env) [''meow'', ''foo''] no_writers_config =
       (Some Nop, None)
   \<and> dom (Metadata disabled_metadata_config) = {''foo'', ''meow''}
   \<and> Config_Compile (writerCompilers example_env) [''meow'', ''foo''] disabled_metadata_config =
       (Some Nop, None)
   \<and> metadata_fields (Logger_context Nop) = []
   \<and> dom (Metadata bad_writer_metadata_config) = {''foo'', ''meow''}
   \<and> Config_Compile (writerCompilers example_env) [''meow'', ''foo''] bad_writer_metadata_config =
       (None, Some (ErrFailedToParse 1 (ErrUnknownWriterType ''nope'')))"
  by (auto simp: no_writers_config_def disabled_metadata_config_def bad_writer_metadata_config_def
      metadata_config_def test_metadata_def Config_Compile_def Nop_def New_def Level_of_def
      WriterConfig_Compile_def compileMain_def writerCompilers_def kind_defs)

text \<open>
  Claim C6, amended: whatever order the map iteration yields the metadata keys in,
  \<^verbatim>\<open>Config.Compile\<close> gives the same result. When it assembles a logger (the configuration
  has a writer, the global minimum level is not Disabled and the writers compile) the
  metadata fields of the logger are the entries of the metadata mapping, each once, in
  ascending byte-wise lexicographic order of their keys. With no writers or with the global
  minimum level Disabled the result is the no-op logger, with no metadata field.
\<close>

theorem metadata_sorted:
  assumes "key_order (Metadata c) ks" and "key_order (Metadata c) ks'"
  shows "Config_Compile reg ks c = Config_Compile reg ks' c
       \<and> (Writers c \<noteq> [] \<and> GlobalMinLevel c \<noteq> Some Disabled \<and>
          Config_Compile reg ks c = (Some lg, None) \<longrightarrow>
            metadata_fields (Logger_context lg) =
              map (\<lambda>k. (k, metadata_value (Metadata c) k)) (sorted_list_of_set (dom (Metadata c)))
            \<and> sorted (map fst (metadata_fields (Logger_context lg)))
            \<and> distinct (map fst (metadata_fields (Logger_context lg)))
            \<and> set (map fst (metadata_fields (Logger_context lg))) = dom (Metadata c))
       \<and> (Writers c = [] \<or> GlobalMinLevel c = Some Disabled \<longrightarrow>
            Config_Compile reg ks c = (Some Nop, None) \<and>
            metadata_fields (Logger_context Nop) = [])"
proof -
  have fin: "finite (dom (Metadata c))"
    using assms(1) by (auto simp: key_order_def dest: sym)
  have det: "Config_Compile reg ks c = Config_Compile reg ks' c"
    using assemble_order [OF assms] by (simp add: Config_Compile_def split: sum.splits)
  have fields: "metadata_fields (Logger_context lg) =
      map (\<lambda>k. (k, metadata_value (Metadata c) k)) (sorted_list_of_set (dom (Metadata c)))"
    if "Writers c \<noteq> []" "GlobalMinLevel c \<noteq> Some Disabled"
      "Config_Compile reg ks c = (Some lg, None)"
  proof -
    have "\<exists>writers. lg = assemble ks c writers"
      using that by (cases "compile_writers reg 0 (Writers c)") (auto simp: Config_Compile_def)
    then obtain writers where "lg = assemble ks c writers" ..
    then show ?thesis
      using assemble_fields [of ks c writers] key_order_sort [OF assms(1)] by simp
  qed
  have nop: "Config_Compile reg ks c = (Some Nop, None) \<and>
      metadata_fields (Logger_context Nop) = []"
    if "Writers c = [] \<or> GlobalMinLevel c = Some Disabled"
    using that by (auto simp: Config_Compile_def Nop_def New_def Level_of_def)
  have main: "Writers c \<noteq> [] \<and> GlobalMinLevel c \<noteq> Some Disabled \<and>
          Config_Compile reg ks c = (Some lg, None) \<longrightarrow>
            metadata_fields (Logger_context lg) =
              map (\<lambda>k. (k, metadata_value (Metadata c) k)) (sorted_list_of_set (dom (Metadata c)))
            \<and> sorted (map fst (metadata_fields (Logger_context lg)))
            \<and> distinct (map fst (metadata_fields (Logger_context lg)))
            \<and> set (map fst (metadata_fields (Logger_context lg))) = dom (Metadata c)"
    using fields fin by (auto simp: comp_def)
  show ?thesis
    using det main nop by blast
qed

lemma test_metadata_order:
  "key_order test_metadata [''meow'', ''foo'']" "key_order test_metadata [''foo'', ''meow'']"
  by (auto simp: key_order_def test_metadata_def)

lemma metadata_config_compiles:
  "Config_Compile (writerCompilers example_env) [''meow'', ''foo''] metadata_config =
     (Some \<lparr>Logger_w = levelWriterAdapter
                (ConsoleWriter (External ''stdout'' False) True ''2006-01-02T15:04:05.999Z07:00''),
            Logger_level = TraceLevel,
            Logger_context = [InterfaceField ''foo'' (AnyMap [(''bar'', AnyString ''asd'')]),
                              InterfaceField ''meow'' (AnyNumber 5)]\<rparr>, None)"
  by (simp add: Config_Compile_def metadata_config_def assemble_def WriterConfig_Compile_def
      compileMain_def writerCompilers_def kind_defs format_defs compileStdout_def example_env_def
      formatOutput_def WriterConfig_zero_def defaultTimeFormat_def New_def attach_def
      metadata_value_def test_metadata_def)

text \<open>
  The witness: the metadata of the package's test, with the keys yielded as meow, foo and as
  foo, meow. Both runs give the logger with foo before meow.
\<close>

theorem metadata_sorted_witness:
  "key_order (Metadata metadata_config) [''meow'', ''foo'']
   \<and> key_order (Metadata metadata_config) [''foo'', ''meow'']
   \<and> Config_Compile (writerCompilers example_env) [''meow'', ''foo''] metadata_config =
     Config_Compile (writerCompilers example_env) [''foo'', ''meow''] metadata_config
   \<and> Config_Compile (writerCompilers example_env) [''meow'', ''foo''] metadata_config =
       (Some metadata_logger, None)
   \<and> sorted (map fst (metadata_fields (Logger_context metadata_logger)))
   \<and> metadata_fields (Logger_context metadata_logger) =
       [(''foo'', AnyMap [(''bar'', AnyString ''asd'')]), (''meow'', AnyNumber 5)]"
proof -
  have c: "Config_Compile (writerCompilers example_env) [''meow'', ''foo''] metadata_config =
       (Some metadata_logger, None)"
    using metadata_config_compiles by (simp add: metadata_logger_def)
  have w: "Writers metadata_config \<noteq> []" "GlobalMinLevel metadata_config \<noteq> Some Disabled"
    by (simp_all add: metadata_config_def)
  have ko: "key_order (Metadata metadata_config) [''meow'', ''foo'']"
    "key_order (Metadata metadata_config) [''foo'', ''meow'']"
    using test_metadata_order by (simp_all add: metadata_config_def)
  have f: "metadata_fields (Logger_context metadata_logger) =
       [(''foo'', AnyMap [(''bar'', AnyString ''asd'')]), (''meow'', AnyNumber 5)]"
    by (simp add: metadata_logger_def)
  show ?thesis
    using metadata_sorted [OF ko, where reg = "writerCompilers example_env"
        and lg = metadata_logger] c w f ko
    by blast
qed

section \<open>The configuration in memory\<close>

lemma same_but_refl: "same_but v m m"
  by (simp add: same_but_def)

lemma same_but_trans: "same_but v m m1 \<Longrightarrow> same_but v m1 m2 \<Longrightarrow> same_but v m m2"
  by (simp add: same_but_def)

lemma WriterConfig_Compile_mem_frame:
  "same_but a m (snd (WriterConfig_Compile_mem reg a m))"
  by (auto simp: WriterConfig_Compile_mem_def same_but_def Let_def
      split: prod.splits option.splits)

lemma compileMain_mem_levels:
  assumes "registry_keeps_levels reg"
  shows "snd (snd (compileMain_mem reg d lv)) = lv"
  using assms
  by (auto simp: compileMain_mem_def registry_keeps_levels_def keeps_levels_def
      split: option.splits)

lemma WriterConfig_Compile_mem_levels:
  assumes "registry_keeps_levels reg"
  shows "levels (snd (WriterConfig_Compile_mem reg a m)) = levels m"
  using compileMain_mem_levels [OF assms, of "descriptors m ! a" "levels m"]
  by (auto simp: WriterConfig_Compile_mem_def Let_def split: prod.splits option.splits)

lemma copy_frame:
  "same_but v m (m\<lparr>descriptors := (descriptors m)[v := x]\<rparr>)"
  by (simp add: same_but_def)

lemma compile_writers_mem_frame:
  "same_but v m (snd (compile_writers_mem reg v i elems m))"
proof (induction elems arbitrary: m i)
  case Nil
  show ?case by (simp add: same_but_refl)
next
  case (Cons a elems)
  let ?m1 = "m\<lparr>descriptors := (descriptors m)[v := descriptors m ! a]\<rparr>"
  obtain wr e m2 where c: "WriterConfig_Compile_mem reg v ?m1 = ((wr, e), m2)"
    by (metis prod.exhaust)
  have s2: "same_but v m m2"
    using same_but_trans [OF copy_frame WriterConfig_Compile_mem_frame [of v ?m1 reg]] c
    by simp
  show ?case
  proof (cases e)
    case (Some err)
    then show ?thesis using c s2 by simp
  next
    case None
    have "same_but v m (snd (compile_writers_mem reg v (i + 1) elems m2))"
      using same_but_trans [OF s2 Cons.IH] .
    then show ?thesis
      using c None by (cases "compile_writers_mem reg v (i + 1) elems m2") (auto split: sum.splits)
  qed
qed

lemma compile_writers_mem_levels:
  assumes "registry_keeps_levels reg"
  shows "levels (snd (compile_writers_mem reg v i elems m)) = levels m"
proof (induction elems arbitrary: m i)
  case Nil
  show ?case by simp
next
  case (Cons a elems)
  let ?m1 = "m\<lparr>descriptors := (descriptors m)[v := descriptors m ! a]\<rparr>"
  obtain wr e m2 where c: "WriterConfig_Compile_mem reg v ?m1 = ((wr, e), m2)"
    by (metis prod.exhaust)
  have l2: "levels m2 = levels m"
    using WriterConfig_Compile_mem_levels [OF assms, of v ?m1] c by simp
  show ?case
  proof (cases e)
    case (Some err)
    then show ?thesis using c l2 by simp
  next
    case None
    have "levels (snd (compile_writers_mem reg v (i + 1) elems m2)) = levels m"
      using Cons.IH [of "i + 1" m2] l2 by simp
    then show ?thesis
      using c None by (cases "compile_writers_mem reg v (i + 1) elems m2") (auto split: sum.splits)
  qed
qed

lemma deref_None [simp]: "(deref cells ptr = None) = (ptr = None)"
  by (cases ptr) (simp_all add: deref_def)

lemma load_Type: "Type (load lv d) = m_Type d"
  by (simp add: load_def)

lemma builtin_keeps_bounds:
  assumes "builtin_registry env reg"
  shows "registry_keeps_bounds reg"
  unfolding registry_keeps_bounds_def
proof (intro allI impI)
  fix t f wc
  assume "reg t = Some f"
  from builtin_entries [OF assms this] show
    "MinLevel (snd (f wc)) = MinLevel wc \<and> MaxLevel (snd (f wc)) = MaxLevel wc"
    using compiler_frame [of f env wc] by blast
qed

lemma own_registry_keeps_levels: "registry_keeps_levels (own_registry vreg)"
  by (auto simp: registry_keeps_levels_def own_registry_def keeps_levels_def own_compiler_def
      split: option.splits prod.splits)

lemma own_compiler_load:
  assumes "MinLevel (snd (f (load lv d))) = MinLevel (load lv d)"
    and "MaxLevel (snd (f (load lv d))) = MaxLevel (load lv d)"
  shows "fst (own_compiler f d lv) = fst (f (load lv d))
       \<and> load lv (fst (snd (own_compiler f d lv))) = snd (f (load lv d))
       \<and> m_MinLevel (fst (snd (own_compiler f d lv))) = m_MinLevel d
       \<and> m_MaxLevel (fst (snd (own_compiler f d lv))) = m_MaxLevel d
       \<and> snd (snd (own_compiler f d lv)) = lv"
proof (cases "f (load lv d)")
  case (Pair r wc1)
  have "MinLevel wc1 = deref lv (m_MinLevel d)" "MaxLevel wc1 = deref lv (m_MaxLevel d)"
    using assms Pair by (simp_all add: load_def)
  then show ?thesis
    using Pair by (simp add: own_compiler_def load_def)
qed

lemma compileMain_mem_own:
  assumes "registry_keeps_bounds vreg"
  shows "fst (compileMain_mem (own_registry vreg) d lv) = fst (compileMain vreg (load lv d))
       \<and> load lv (fst (snd (compileMain_mem (own_registry vreg) d lv))) =
           snd (compileMain vreg (load lv d))
       \<and> m_MinLevel (fst (snd (compileMain_mem (own_registry vreg) d lv))) = m_MinLevel d
       \<and> m_MaxLevel (fst (snd (compileMain_mem (own_registry vreg) d lv))) = m_MaxLevel d
       \<and> snd (snd (compileMain_mem (own_registry vreg) d lv)) = lv"
proof (cases "vreg (m_Type d)")
  case None
  then show ?thesis
    by (simp add: compileMain_mem_def compileMain_def own_registry_def load_def)
next
  case (Some f)
  have "MinLevel (snd (f (load lv d))) = MinLevel (load lv d)"
    "MaxLevel (snd (f (load lv d))) = MaxLevel (load lv d)"
    using assms Some by (auto simp: registry_keeps_bounds_def)
  then have "fst (own_compiler f d lv) = fst (f (load lv d))
       \<and> load lv (fst (snd (own_compiler f d lv))) = snd (f (load lv d))
       \<and> m_MinLevel (fst (snd (own_compiler f d lv))) = m_MinLevel d
       \<and> m_MaxLevel (fst (snd (own_compiler f d lv))) = m_MaxLevel d
       \<and> snd (snd (own_compiler f d lv)) = lv"
    by (rule own_compiler_load)
  then show ?thesis
    using Some
    by (simp add: compileMain_mem_def compileMain_def own_registry_def load_Type)
qed

lemma WriterConfig_Compile_mem_own:
  assumes "registry_keeps_bounds vreg"
  shows "fst (WriterConfig_Compile_mem (own_registry vreg) a m) =
         fst (WriterConfig_Compile vreg (load (levels m) (descriptors m ! a)))"
proof -
  let ?d = "descriptors m ! a" and ?lv = "levels m"
  obtain out e d1 lv1 where c: "compileMain_mem (own_registry vreg) ?d ?lv = ((out, e), d1, lv1)"
    by (metis prod.exhaust)
  obtain wc1 where v: "compileMain vreg (load ?lv ?d) = ((out, e), wc1)"
    using compileMain_mem_own [OF assms, of ?d ?lv] c
    by (cases "compileMain vreg (load ?lv ?d)") auto
  have l: "load ?lv d1 = wc1" "lv1 = ?lv"
    using compileMain_mem_own [OF assms, of ?d ?lv] c v by simp_all
  have b: "MinLevel wc1 = deref ?lv (m_MinLevel d1)" "MaxLevel wc1 = deref ?lv (m_MaxLevel d1)"
    using l(1) by (auto simp: load_def)
  show ?thesis
    using c v l b
    by (cases e; cases "formatOutput wc1 out"; cases "snd (formatOutput wc1 out)")
      (auto simp: WriterConfig_Compile_mem_def WriterConfig_Compile_def Let_def deref_def)
qed


lemma compile_writers_mem_own:
  assumes "registry_keeps_bounds vreg" and "v < length (descriptors m)"
    and "\<forall>a\<in>set elems. a \<noteq> v"
  shows "fst (compile_writers_mem (own_registry vreg) v i elems m) =
         compile_writers vreg i (map (\<lambda>a. load (levels m) (descriptors m ! a)) elems)"
  using assms(2,3)
proof (induction elems arbitrary: m i)
  case Nil
  show ?case by simp
next
  case (Cons a elems)
  let ?reg = "own_registry vreg"
  let ?m1 = "m\<lparr>descriptors := (descriptors m)[v := descriptors m ! a]\<rparr>"
  obtain wr e m2 where c: "WriterConfig_Compile_mem ?reg v ?m1 = ((wr, e), m2)"
    by (metis prod.exhaust)
  have r: "fst (WriterConfig_Compile vreg (load (levels m) (descriptors m ! a))) = (wr, e)"
    using WriterConfig_Compile_mem_own [OF assms(1), of v ?m1] c Cons.prems(1) by simp
  have s2: "same_but v m m2"
    using same_but_trans [OF copy_frame WriterConfig_Compile_mem_frame [of v ?m1 ?reg]] c
    by simp
  have l2: "levels m2 = levels m"
    using WriterConfig_Compile_mem_levels [OF own_registry_keeps_levels, of vreg v ?m1] c by simp
  show ?case
  proof (cases e)
    case (Some err)
    then show ?thesis using c r by simp
  next
    case None
    have len: "v < length (descriptors m2)"
      using s2 Cons.prems(1) by (simp add: same_but_def)
    have el: "\<forall>b\<in>set elems. b \<noteq> v" using Cons.prems(2) by simp
    have same: "map (\<lambda>b. load (levels m2) (descriptors m2 ! b)) elems =
                map (\<lambda>b. load (levels m) (descriptors m ! b)) elems"
      using s2 l2 el by (auto simp: same_but_def)
    have "fst (compile_writers_mem ?reg v (i + 1) elems m2) =
          compile_writers vreg (i + 1) (map (\<lambda>b. load (levels m) (descriptors m ! b)) elems)"
      using Cons.IH [OF len el, of "i + 1"] same by simp
    then show ?thesis
      using c r None
      by (cases "compile_writers_mem ?reg v (i + 1) elems m2") (auto split: sum.splits)
  qed
qed

lemma loop_memory:
  assumes "\<forall>a\<in>set (m_Writers (config m)). a < length (descriptors m)"
  shows "same_but (length (descriptors m))
           (m\<lparr>descriptors := descriptors m @ [WriterConfig_mem_zero]\<rparr>)
           (snd (compile_writers_mem reg (length (descriptors m)) i (m_Writers (config m))
                  (m\<lparr>descriptors := descriptors m @ [WriterConfig_mem_zero]\<rparr>)))"
  by (rule compile_writers_mem_frame)

lemma same_but_new_cell:
  assumes "same_but (length (descriptors m)) (m\<lparr>descriptors := descriptors m @ [z]\<rparr>) m'"
  shows "config m' = config m \<and> bools m' = bools m \<and> maps m' = maps m \<and>
         take (length (descriptors m)) (descriptors m') = descriptors m"
proof -
  have len: "length (descriptors m') = Suc (length (descriptors m))"
    using assms by (simp add: same_but_def)
  have nth: "descriptors m' ! a = descriptors m ! a" if "a < length (descriptors m)" for a
    using assms that by (simp add: same_but_def nth_append)
  have "take (length (descriptors m)) (descriptors m') = descriptors m"
    using len nth by (intro nth_equalityI) simp_all
  then show ?thesis using assms by (simp add: same_but_def)
qed

lemma load_Config_same:
  assumes "config m' = config m" and "bools m' = bools m" and "maps m' = maps m"
    and "levels m' = levels m"
    and "take (length (descriptors m)) (descriptors m') = descriptors m"
    and "\<forall>a\<in>set (m_Writers (config m)). a < length (descriptors m)"
  shows "load_Config m' = load_Config m"
proof -
  have "descriptors m' ! a = descriptors m ! a" if "a < length (descriptors m)" for a
    using assms(5) that by (metis nth_take)
  then have "map (\<lambda>a. load (levels m) (descriptors m' ! a)) (m_Writers (config m)) =
             map (\<lambda>a. load (levels m) (descriptors m ! a)) (m_Writers (config m))"
    using assms(6) by simp
  then show ?thesis
    using assms(1-4) by (simp add: load_Config_def split: option.splits)
qed

lemmas memory_defs = Config_Compile_mem_def WriterConfig_Compile_mem_def compileMain_mem_def
  own_registry_def own_compiler_def load_def load_Config_def deref_def WriterConfig_mem_zero_def

lemma poke_run:
  "Config_Compile_mem poke_registry [] poke_memory =
     ((Some \<lparr>Logger_w = minMaxLevelWriter (levelWriterAdapter Discard) Disabled NoLevel,
              Logger_level = TraceLevel, Logger_context = []\<rparr>, None),
      poke_memory\<lparr>descriptors := descriptors poke_memory @ [descriptors poke_memory ! 0],
                  levels := [Disabled]\<rparr>)"
  by (simp add: memory_defs poke_registry_def poke_memory_def compilePoke_def formatOutput_def
      MinMaxLevelWriter_def levelPtr_def assemble_def New_def)

text \<open>
  Claim C10, as stated: \<^verbatim>\<open>Config.Compile\<close> never changes the configuration it is called
  on, the elements of the writers slice included, even with a registered constructor that
  modifies its descriptor argument, because every descriptor is compiled from a copy. The
  copy is shallow: its level pointers point to the same \<^verbatim>\<open>Level\<close> variables as the
  element's. With \<^verbatim>\<open>compilePoke\<close> registered, compiling succeeds, and the lower bound of
  the first element of \<^verbatim>\<open>c.Writers\<close>, info before the call, is Disabled after it.
\<close>

theorem Compile_shares_levels_counterexample:
  "m_MinLevel (descriptors poke_memory ! 0) = Some 0
   \<and> levels poke_memory = [InfoLevel]
   \<and> MinLevel (Writers (load_Config poke_memory) ! 0) = Some InfoLevel
   \<and> snd (fst (Config_Compile_mem poke_registry [] poke_memory)) = None
   \<and> levels (snd (Config_Compile_mem poke_registry [] poke_memory)) = [Disabled]
   \<and> MinLevel (Writers (load_Config (snd (Config_Compile_mem poke_registry [] poke_memory))) ! 0) =
       Some Disabled"
  unfolding poke_run by (simp add: poke_memory_def load_Config_def load_def deref_def)

text \<open>
  Claim C10, amended: \<^verbatim>\<open>Config.Compile\<close>, whether it succeeds or fails and whatever the
  registered constructors do with the descriptor they are handed, leaves the configuration
  struct (the slice, the level pointer, the timestamp pointer, the caller flag, the metadata
  reference), every \<^verbatim>\<open>WriterConfig\<close> variable that existed before the call (so every
  element of the slice, with its level pointers), the \<^verbatim>\<open>bool\<close> variables and the map
  objects as they were: each descriptor is compiled from a copy, the one new cell. The
  \<^verbatim>\<open>Level\<close> variables the level pointers refer to are shared with the copy; when no
  constructor of the registry writes through a level pointer they are unchanged too, and the
  configuration has the same value after the call as before. That is so for the package's own
  constructors, in any registry built from them; for the registries the package builds the
  result is that of \<^verbatim>\<open>Config_Compile\<close> on the value of the configuration.
\<close>

theorem Compile_keeps_configuration:
  assumes "\<forall>a\<in>set (m_Writers (config m)). a < length (descriptors m)"
  shows "config (snd (Config_Compile_mem reg ks m)) = config m
       \<and> take (length (descriptors m)) (descriptors (snd (Config_Compile_mem reg ks m))) =
           descriptors m
       \<and> bools (snd (Config_Compile_mem reg ks m)) = bools m
       \<and> maps (snd (Config_Compile_mem reg ks m)) = maps m
       \<and> (registry_keeps_levels reg \<longrightarrow>
            levels (snd (Config_Compile_mem reg ks m)) = levels m \<and>
            load_Config (snd (Config_Compile_mem reg ks m)) = load_Config m)
       \<and> registry_keeps_levels (own_registry vreg)
       \<and> (builtin_registry env vreg \<longrightarrow>
            fst (Config_Compile_mem (own_registry vreg) ks m) =
              Config_Compile vreg ks (load_Config m))"
proof -
  let ?v = "length (descriptors m)"
  let ?m0 = "m\<lparr>descriptors := descriptors m @ [WriterConfig_mem_zero]\<rparr>"
  let ?exit = "length (m_Writers (config m)) = 0 \<or>
               deref (levels m) (m_GlobalMinLevel (config m)) = Some Disabled"
  have frame: "config m' = config m \<and> bools m' = bools m \<and> maps m' = maps m \<and>
         take ?v (descriptors m') = descriptors m"
    if "m' = snd (Config_Compile_mem r ks m)" for r m'
  proof (cases ?exit)
    case True
    then show ?thesis using that by (auto simp: Config_Compile_mem_def)
  next
    case False
    let ?r = "compile_writers_mem r ?v 0 (m_Writers (config m)) ?m0"
    have "m' = snd ?r"
      using that False by (cases ?r) (auto simp: Config_Compile_mem_def split: sum.splits)
    then show ?thesis
      using same_but_new_cell [OF loop_memory [OF assms, of r 0]] by simp
  qed
  have lev: "levels (snd (Config_Compile_mem r ks m)) = levels m"
    if "registry_keeps_levels r" for r
  proof (cases ?exit)
    case True
    then show ?thesis by (auto simp: Config_Compile_mem_def)
  next
    case False
    let ?r = "compile_writers_mem r ?v 0 (m_Writers (config m)) ?m0"
    have "snd (Config_Compile_mem r ks m) = snd ?r"
      using False by (cases ?r) (auto simp: Config_Compile_mem_def split: sum.splits)
    then show ?thesis
      using compile_writers_mem_levels [OF that, of ?v 0 "m_Writers (config m)" ?m0] by simp
  qed
  have lc: "load_Config (snd (Config_Compile_mem r ks m)) = load_Config m"
    if "registry_keeps_levels r" for r
    using frame [OF refl, of r] lev [OF that] assms by (intro load_Config_same) simp_all
  have ref: "fst (Config_Compile_mem (own_registry vreg) ks m) =
       Config_Compile vreg ks (load_Config m)" if b: "builtin_registry env vreg"
  proof (cases ?exit)
    case True
    then show ?thesis
      by (auto simp: Config_Compile_mem_def Config_Compile_def load_Config_def)
  next
    case False
    let ?reg = "own_registry vreg"
    let ?r = "compile_writers_mem ?reg ?v 0 (m_Writers (config m)) ?m0"
    have ne: "\<forall>a\<in>set (m_Writers (config m)). a \<noteq> ?v" using assms by auto
    have w: "map (\<lambda>a. load (levels ?m0) (descriptors ?m0 ! a)) (m_Writers (config m)) =
             Writers (load_Config m)"
      using assms by (simp add: load_Config_def nth_append)
    have f: "fst ?r = compile_writers vreg 0 (Writers (load_Config m))"
      using compile_writers_mem_own [OF builtin_keeps_bounds [OF b], of ?v ?m0
          "m_Writers (config m)" 0] ne w by simp
    have s: "snd (Config_Compile_mem ?reg ks m) = snd ?r"
      using False by (cases ?r) (auto simp: Config_Compile_mem_def split: sum.splits)
    have l: "load_Config (snd ?r) = load_Config m"
      using lc [OF own_registry_keeps_levels, of vreg] s by simp
    have e: "\<not> (length (Writers (load_Config m)) = 0 \<or>
               GlobalMinLevel (load_Config m) = Some Disabled)"
      using False by (simp add: load_Config_def)
    show ?thesis
      using False f l e
      by (cases ?r) (auto simp: Config_Compile_mem_def Config_Compile_def split: sum.splits)
  qed
  show ?thesis
    using frame [OF refl, of reg] lev [of reg] lc [of reg] own_registry_keeps_levels [of vreg] ref
    by blast
qed

lemma js_run:
  "Config_Compile_mem (own_registry (writerCompilers_js example_env)) [] js_memory =
     ((Some \<lparr>Logger_w = JSWriter, Logger_level = TraceLevel, Logger_context = []\<rparr>, None),
      js_memory\<lparr>descriptors :=
        descriptors js_memory @ [(descriptors js_memory ! 0)\<lparr>m_Format := LogFormatJSON\<rparr>]\<rparr>)"
  by (simp add: memory_defs js_memory_def writerCompilers_js_def compileJS_def formatOutput_def
      assemble_def New_def)

text \<open>
  The witness: one writer of kind js with the format tag \<^verbatim>\<open>bogus\<close>. \<^verbatim>\<open>compileJS\<close>
  assigns the JSON tag to the format of the descriptor it is handed: afterwards the loop
  variable's cell holds the changed copy, and the element of the slice still has the tag
  \<^verbatim>\<open>bogus\<close>.
\<close>

theorem Compile_keeps_configuration_witness:
  "m_Writers (config js_memory) = [0]
   \<and> length (descriptors js_memory) = 1
   \<and> registry_keeps_levels (own_registry (writerCompilers_js example_env))
   \<and> builtin_registry example_env (writerCompilers_js example_env)
   \<and> descriptors (snd (Config_Compile_mem (own_registry (writerCompilers_js example_env)) []
         js_memory)) =
       [descriptors js_memory ! 0, (descriptors js_memory ! 0)\<lparr>m_Format := LogFormatJSON\<rparr>]
   \<and> m_Format (descriptors js_memory ! 0) = ''bogus''
   \<and> take 1 (descriptors (snd (Config_Compile_mem (own_registry (writerCompilers_js example_env)) []
         js_memory))) = descriptors js_memory
   \<and> config (snd (Config_Compile_mem (own_registry (writerCompilers_js example_env)) []
         js_memory)) = config js_memory
   \<and> load_Config (snd (Config_Compile_mem (own_registry (writerCompilers_js example_env)) []
         js_memory)) = load_Config js_memory
   \<and> Config_Compile (writerCompilers_js example_env) [] (load_Config js_memory) =
       (Some \<lparr>Logger_w = JSWriter, Logger_level = TraceLevel, Logger_context = []\<rparr>, None)"
proof -
  have a: "\<forall>a\<in>set (m_Writers (config js_memory)). a < length (descriptors js_memory)"
    by (simp add: js_memory_def)
  have b: "builtin_registry example_env (writerCompilers_js example_env)"
    by (simp add: builtin_registry_def)
  have d: "m_Writers (config js_memory) = [0]" "length (descriptors js_memory) = 1"
    "m_Format (descriptors js_memory ! 0) = ''bogus''"
    "descriptors js_memory = [descriptors js_memory ! 0]"
    by (simp_all add: js_memory_def)
  note T = Compile_keeps_configuration [OF a, where reg = "own_registry (writerCompilers_js example_env)"
      and vreg = "writerCompilers_js example_env" and env = example_env and ks = "[]"]
  have k: "registry_keeps_levels (own_registry (writerCompilers_js example_env))"
    using T by blast
  have r: "fst (Config_Compile_mem (own_registry (writerCompilers_js example_env)) [] js_memory) =
      Config_Compile (writerCompilers_js example_env) [] (load_Config js_memory)"
    using T b by blast
  have t: "take (length (descriptors js_memory))
      (descriptors (snd (Config_Compile_mem (own_registry (writerCompilers_js example_env)) []
         js_memory))) = descriptors js_memory"
    "config (snd (Config_Compile_mem (own_registry (writerCompilers_js example_env)) []
         js_memory)) = config js_memory"
    "load_Config (snd (Config_Compile_mem (own_registry (writerCompilers_js example_env)) []
         js_memory)) = load_Config js_memory"
    using T k by blast+
  have e: "descriptors (snd (Config_Compile_mem (own_registry (writerCompilers_js example_env)) []
         js_memory)) =
       [descriptors js_memory ! 0, (descriptors js_memory ! 0)\<lparr>m_Format := LogFormatJSON\<rparr>]"
    unfolding js_run using d(4) by (simp add: js_memory_def)
  have l: "Config_Compile (writerCompilers_js example_env) [] (load_Config js_memory) =
       (Some \<lparr>Logger_w = JSWriter, Logger_level = TraceLevel, Logger_context = []\<rparr>, None)"
    using r js_run by simp
  show ?thesis
    using b d(1-3) k t e l by simp
qed

end
